theory Spec2Isabelle
  imports Complex_Main "HOL-Library.Multiset"
begin

section \<open>Data model\<close>

subsection \<open>Transactions (api/transactions.ts, app/(tabs)/ranch.tsx, components/ranch/types)\<close>

text \<open>
  The status of a transaction is the string-literal union
  \<^verbatim>\<open>'pending' | 'approved' | 'rejected' | 'executed'\<close>, a vote is
  \<^verbatim>\<open>'approve' | 'reject'\<close>.
\<close>

datatype status = Pending | Approved | Rejected | Executed

datatype vote = Approve | Reject

text \<open>
  \<^verbatim>\<open>votes: Record<string, 'approve' | 'reject'>\<close> is a JavaScript object: user ids in
  insertion order, each with one vote. Its own entries are kept as an association list, so
  that \<^verbatim>\<open>Object.keys\<close> is \<open>map fst\<close>, \<^verbatim>\<open>Object.values\<close> is \<open>map snd\<close> and the own entry
  of a key is \<open>map_of\<close>. The optional fields of the interface are options.
\<close>

record transaction =
  transactionID :: string
  groupID :: string
  userID :: string
  amount :: string
  description :: string
  status :: status
  votes :: "(string \<times> vote) list"
  createdAt :: string
  proposedBy :: "string option"
  transactionType :: "string option"
  executedAt :: "string option"

subsection \<open>The outcome of a fetch\<close>

text \<open>
  \<^verbatim>\<open>await fetch(...)\<close> either rejects (no response at all) or resolves to a response with
  its \<^verbatim>\<open>ok\<close> flag. \<^verbatim>\<open>await response.json()\<close> rejects when the body is not JSON: the
  body is \<open>None\<close> then, and \<open>Some\<close> of the parsed payload otherwise.
\<close>

datatype 'a fetch_result = NetworkError | Response (ok: bool) (body: "'a option")

subsection \<open>JavaScript numbers and values\<close>

text \<open>
  A JavaScript number is NaN, an infinity or a finite double. Every finite double is a
  rational, and \<^verbatim>\<open><\<close>, \<^verbatim>\<open><=\<close>, \<^verbatim>\<open>>\<close> and truthiness depend on that rational only (the two zeros
  compare equal and are both falsy), so the finite numbers are kept as rationals. No
  arithmetic is done on them here: where the source rounds or formats a number, the
  operation is a parameter of the model.
\<close>

datatype js_num = NaN | NegInf | Fin rat | PosInf

fun num_truthy :: "js_num \<Rightarrow> bool" where
  "num_truthy NaN = False"
| "num_truthy (Fin q) = (q \<noteq> 0)"
| "num_truthy NegInf = True"
| "num_truthy PosInf = True"

fun js_less :: "js_num \<Rightarrow> js_num \<Rightarrow> bool" where
  "js_less NaN _ = False"
| "js_less _ NaN = False"
| "js_less NegInf NegInf = False"
| "js_less NegInf _ = True"
| "js_less (Fin a) (Fin b) = (a < b)"
| "js_less (Fin a) PosInf = True"
| "js_less (Fin a) NegInf = False"
| "js_less PosInf _ = False"

fun js_le :: "js_num \<Rightarrow> js_num \<Rightarrow> bool" where
  "js_le NaN _ = False"
| "js_le _ NaN = False"
| "js_le NegInf _ = True"
| "js_le (Fin a) (Fin b) = (a \<le> b)"
| "js_le (Fin a) PosInf = True"
| "js_le (Fin a) NegInf = False"
| "js_le PosInf PosInf = True"
| "js_le PosInf _ = False"

text \<open>
  The values a parsed JSON body and its property reads can give. An object is its
  properties in order, each key once.
\<close>

datatype js_value =
    JUndefined
  | JNull
  | JBool bool
  | JNum js_num
  | JStr string
  | JArr "js_value list"
  | JObj "(string \<times> js_value) list"

fun truthy :: "js_value \<Rightarrow> bool" where
  "truthy JUndefined = False"
| "truthy JNull = False"
| "truthy (JBool b) = b"
| "truthy (JNum n) = num_truthy n"
| "truthy (JStr s) = (s \<noteq> [])"
| "truthy (JArr _) = True"
| "truthy (JObj _) = True"

text \<open>
  What the wrappers and handlers can throw: \<^verbatim>\<open>new Error(v)\<close>, whose message is the string
  conversion of \<open>v\<close> (\<open>v\<close> itself when it is a string); the SyntaxError of
  \<^verbatim>\<open>response.json()\<close> on a body that is not JSON; the TypeError of a property read on
  \<^verbatim>\<open>null\<close>; and the rejection of \<^verbatim>\<open>fetch\<close> itself.
\<close>

datatype js_exn = Error js_value | SyntaxError | TypeError | FetchFailed

text \<open>
  The property read \<^verbatim>\<open>v.key\<close>, for a key that is not a built-in property of strings or
  arrays (\<^verbatim>\<open>detail\<close>, \<^verbatim>\<open>transactions\<close>, \<^verbatim>\<open>transaction\<close>): a missing property of an object
  reads as \<^verbatim>\<open>undefined\<close>, as does any property of a boolean, number, string or array, and
  the read throws on \<^verbatim>\<open>null\<close> and \<^verbatim>\<open>undefined\<close>.
\<close>

definition own_prop :: "(string \<times> js_value) list \<Rightarrow> string \<Rightarrow> js_value" where
  "own_prop kvs key = (case map_of kvs key of None \<Rightarrow> JUndefined | Some v \<Rightarrow> v)"

fun get_prop :: "js_value \<Rightarrow> string \<Rightarrow> js_exn + js_value" where
  "get_prop JUndefined key = Inl TypeError"
| "get_prop JNull key = Inl TypeError"
| "get_prop (JObj kvs) key = Inr (own_prop kvs key)"
| "get_prop _ key = Inr JUndefined"

text \<open>The operator \<^verbatim>\<open>a || b\<close>.\<close>

definition js_or :: "js_value \<Rightarrow> js_value \<Rightarrow> js_value" where
  "js_or a b = (if truthy a then a else b)"

text \<open>\<^verbatim>\<open>error.detail || fallback\<close>\<close>

definition detail_or :: "js_value \<Rightarrow> string \<Rightarrow> js_exn + js_value" where
  "detail_or error fallback =
     (case get_prop error ''detail'' of
        Inl e \<Rightarrow> Inl e
      | Inr d \<Rightarrow> Inr (js_or d (JStr fallback)))"

section \<open>The transaction API client (api/transactions.ts)\<close>

datatype http_method = GET | POST

text \<open>
  The two arguments of \<^verbatim>\<open>fetch\<close>. A call without \<^verbatim>\<open>method\<close> is a GET. The body is the
  value handed to \<^verbatim>\<open>JSON.stringify\<close>.
\<close>

record request =
  url :: string
  http_method :: http_method
  headers :: "(string \<times> string) list"
  req_body :: "js_value option"

definition API_BASE_URL :: string where
  "API_BASE_URL = ''http://localhost:8080''"

record CreateTransactionRequest =
  req_groupId :: string
  req_amount :: js_num
  req_description :: string

fun vote_str :: "vote \<Rightarrow> string" where
  "vote_str Approve = ''approve''"
| "vote_str Reject = ''reject''"

text \<open>
  The two lines \<^verbatim>\<open>const error = await response.json(); throw new Error(error.detail || fallback)\<close>
  of every wrapper: what is thrown for a response that is not ok.
\<close>

definition thrown_for :: "js_value option \<Rightarrow> string \<Rightarrow> js_exn" where
  "thrown_for b fallback =
     (case b of
        None \<Rightarrow> SyntaxError
      | Some error \<Rightarrow> (case detail_or error fallback of Inl e \<Rightarrow> e | Inr m \<Rightarrow> Error m))"

definition getGroupTransactions_request :: "string \<Rightarrow> string \<Rightarrow> request" where
  "getGroupTransactions_request groupId token =
     \<lparr>url = API_BASE_URL @ ''/transactions?groupId='' @ groupId,
      http_method = GET,
      headers = [(''Authorization'', ''Bearer '' @ token)],
      req_body = None\<rparr>"

definition getGroupTransactions ::
  "(request \<Rightarrow> js_value fetch_result) \<Rightarrow> string \<Rightarrow> string \<Rightarrow> js_exn + js_value" where
  "getGroupTransactions fetch groupId token =
     (case fetch (getGroupTransactions_request groupId token) of
        NetworkError \<Rightarrow> Inl FetchFailed
      | Response is_ok b \<Rightarrow>
          if \<not> is_ok then Inl (thrown_for b ''Failed to fetch transactions'')
          else (case b of
                  None \<Rightarrow> Inl SyntaxError
                | Some data \<Rightarrow> get_prop data ''transactions''))"

definition getTransactionHistory_request :: "string \<Rightarrow> request" where
  "getTransactionHistory_request token =
     \<lparr>url = API_BASE_URL @ ''/transactions/history/me'',
      http_method = GET,
      headers = [(''Authorization'', ''Bearer '' @ token)],
      req_body = None\<rparr>"

definition getTransactionHistory ::
  "(request \<Rightarrow> js_value fetch_result) \<Rightarrow> string \<Rightarrow> js_exn + js_value" where
  "getTransactionHistory fetch token =
     (case fetch (getTransactionHistory_request token) of
        NetworkError \<Rightarrow> Inl FetchFailed
      | Response is_ok b \<Rightarrow>
          if \<not> is_ok then Inl (thrown_for b ''Failed to fetch transaction history'')
          else (case b of
                  None \<Rightarrow> Inl SyntaxError
                | Some data \<Rightarrow> get_prop data ''transactions''))"

definition getTransaction_request :: "string \<Rightarrow> string \<Rightarrow> request" where
  "getTransaction_request transactionId token =
     \<lparr>url = API_BASE_URL @ ''/transactions/'' @ transactionId,
      http_method = GET,
      headers = [(''Authorization'', ''Bearer '' @ token)],
      req_body = None\<rparr>"

definition getTransaction ::
  "(request \<Rightarrow> js_value fetch_result) \<Rightarrow> string \<Rightarrow> string \<Rightarrow> js_exn + js_value" where
  "getTransaction fetch transactionId token =
     (case fetch (getTransaction_request transactionId token) of
        NetworkError \<Rightarrow> Inl FetchFailed
      | Response is_ok b \<Rightarrow>
          if \<not> is_ok then Inl (thrown_for b ''Failed to fetch transaction'')
          else (case b of
                  None \<Rightarrow> Inl SyntaxError
                | Some data \<Rightarrow> get_prop data ''transaction''))"

definition createTransaction_request :: "CreateTransactionRequest \<Rightarrow> string \<Rightarrow> request" where
  "createTransaction_request req token =
     \<lparr>url = API_BASE_URL @ ''/transactions'',
      http_method = POST,
      headers = [(''Content-Type'', ''application/json''),
                 (''Authorization'', ''Bearer '' @ token)],
      req_body = Some (JObj [(''groupId'', JStr (req_groupId req)),
                             (''amount'', JNum (req_amount req)),
                             (''description'', JStr (req_description req))])\<rparr>"

definition createTransaction ::
  "(request \<Rightarrow> js_value fetch_result) \<Rightarrow> CreateTransactionRequest \<Rightarrow> string \<Rightarrow> js_exn + js_value" where
  "createTransaction fetch req token =
     (case fetch (createTransaction_request req token) of
        NetworkError \<Rightarrow> Inl FetchFailed
      | Response is_ok b \<Rightarrow>
          if \<not> is_ok then Inl (thrown_for b ''Failed to create transaction'')
          else (case b of None \<Rightarrow> Inl SyntaxError | Some data \<Rightarrow> Inr data))"

definition voteOnTransaction_request :: "string \<Rightarrow> vote \<Rightarrow> string \<Rightarrow> request" where
  "voteOnTransaction_request transactionId v token =
     \<lparr>url = API_BASE_URL @ ''/transactions/'' @ transactionId @ ''/vote'',
      http_method = POST,
      headers = [(''Content-Type'', ''application/json''),
                 (''Authorization'', ''Bearer '' @ token)],
      req_body = Some (JObj [(''vote'', JStr (vote_str v))])\<rparr>"

definition voteOnTransaction ::
  "(request \<Rightarrow> js_value fetch_result) \<Rightarrow> string \<Rightarrow> vote \<Rightarrow> string \<Rightarrow> js_exn + js_value" where
  "voteOnTransaction fetch transactionId v token =
     (case fetch (voteOnTransaction_request transactionId v token) of
        NetworkError \<Rightarrow> Inl FetchFailed
      | Response is_ok b \<Rightarrow>
          if \<not> is_ok then Inl (thrown_for b ''Failed to vote on transaction'')
          else (case b of None \<Rightarrow> Inl SyntaxError | Some data \<Rightarrow> Inr data))"

definition executeTransaction_request :: "string \<Rightarrow> string \<Rightarrow> request" where
  "executeTransaction_request transactionId token =
     \<lparr>url = API_BASE_URL @ ''/transactions/'' @ transactionId @ ''/execute'',
      http_method = POST,
      headers = [(''Authorization'', ''Bearer '' @ token)],
      req_body = None\<rparr>"

definition executeTransaction ::
  "(request \<Rightarrow> js_value fetch_result) \<Rightarrow> string \<Rightarrow> string \<Rightarrow> js_exn + js_value" where
  "executeTransaction fetch transactionId token =
     (case fetch (executeTransaction_request transactionId token) of
        NetworkError \<Rightarrow> Inl FetchFailed
      | Response is_ok b \<Rightarrow>
          if \<not> is_ok then Inl (thrown_for b ''Failed to execute transaction'')
          else (case b of None \<Rightarrow> Inl SyntaxError | Some data \<Rightarrow> Inr data))"

subsection \<open>The documented requests\<close>

text \<open>
  In the words of the interface description: a request is the documented one of an
  operation when it has the documented method, goes to the documented path below the base
  URL and carries the header \<^verbatim>\<open>Authorization: Bearer <token>\<close>.
\<close>

definition documented :: "http_method \<Rightarrow> string \<Rightarrow> string \<Rightarrow> request \<Rightarrow> bool" where
  "documented m path tok req =
     (http_method req = m \<and> url req = API_BASE_URL @ path
      \<and> map_of (headers req) ''Authorization'' = Some (''Bearer '' @ tok))"

text \<open>
  Three servers to put a wrapper in front of: one that gives one answer to the requests of
  a kind and fails on every other request; one that fails on the requests of a kind and
  answers the others as \<open>fetch\<close> does; one that answers the requests of a kind as \<open>fetch\<close>
  does and fails on the others.
\<close>

definition answering_only :: "(request \<Rightarrow> bool) \<Rightarrow> 'a fetch_result \<Rightarrow> request \<Rightarrow> 'a fetch_result" where
  "answering_only kind answer req = (if kind req then answer else NetworkError)"

definition refusing ::
  "(request \<Rightarrow> bool) \<Rightarrow> (request \<Rightarrow> 'a fetch_result) \<Rightarrow> request \<Rightarrow> 'a fetch_result" where
  "refusing kind fetch req = (if kind req then NetworkError else fetch req)"

definition restricted_to ::
  "(request \<Rightarrow> bool) \<Rightarrow> (request \<Rightarrow> 'a fetch_result) \<Rightarrow> request \<Rightarrow> 'a fetch_result" where
  "restricted_to kind fetch req = (if kind req then fetch req else NetworkError)"

section \<open>RanchScreen: the state and fetchProposals (app/(tabs)/ranch.tsx)\<close>

text \<open>
  The parsed payload of \<^verbatim>\<open>GET /transactions?groupId=...\<close> as fetchProposals reads it:
  only \<^verbatim>\<open>data.transactions\<close>, which may be missing (\<^verbatim>\<open>data.transactions || []\<close>).
\<close>

record transactions_payload =
  transactions :: "transaction list option"

text \<open>
  The \<^verbatim>\<open>useState\<close> cells of RanchScreen that the data-loading functions and the vote and
  execute handlers write, with the route parameter \<^verbatim>\<open>id\<close>. The other cells of the screen
  (modal visibility, form inputs, stock holdings) are the extension \<open>more\<close> of the
  record: no function below touches them.
\<close>

record screen_state =
  route_id :: "string option"
  authToken :: "string option"
  currentUserId :: "string option"
  groupOwnerId :: "string option"
  ranchBalance :: js_num
  investedAmount :: js_num
  totalAssets :: js_num
  memberList :: "string list"
  memberProfiles :: "string \<rightharpoonup> string"
  memberCount :: nat
  proposals :: "transaction list"
  ledger :: "transaction list"
  personalBalance :: js_num

text \<open>A string is falsy in JavaScript when it is missing or empty.\<close>

fun truthy_str :: "string option \<Rightarrow> bool" where
  "truthy_str None = False"
| "truthy_str (Some s) = (s \<noteq> [])"

text \<open>
  fetchProposals: nothing happens without a route id or an auth token; a rejected fetch
  and an unreadable body are caught and logged; a response that is not ok is logged. On
  an ok response the transactions of this group are split by status into the proposals
  and the ledger.
\<close>

definition thisGroupTransactions :: "string \<Rightarrow> transactions_payload \<Rightarrow> transaction list" where
  "thisGroupTransactions gid data =
     filter (\<lambda>txn. groupID txn = gid)
       (case transactions data of None \<Rightarrow> [] | Some ts \<Rightarrow> ts)"

definition pendingProposals :: "string \<Rightarrow> transactions_payload \<Rightarrow> transaction list" where
  "pendingProposals gid data = filter (\<lambda>txn. status txn \<noteq> Executed) (thisGroupTransactions gid data)"

definition executedTransactions :: "string \<Rightarrow> transactions_payload \<Rightarrow> transaction list" where
  "executedTransactions gid data = filter (\<lambda>txn. status txn = Executed) (thisGroupTransactions gid data)"

definition fetchProposals ::
  "transactions_payload fetch_result \<Rightarrow> 'a screen_state_scheme \<Rightarrow> 'a screen_state_scheme" where
  "fetchProposals resp st =
     (case route_id st of
        None \<Rightarrow> st
      | Some gid \<Rightarrow>
          if gid = [] then st
          else if \<not> truthy_str (authToken st) then st
          else (case resp of
                  NetworkError \<Rightarrow> st
                | Response is_ok b \<Rightarrow>
                    if is_ok then
                      (case b of
                         None \<Rightarrow> st
                       | Some data \<Rightarrow>
                           st\<lparr>proposals := pendingProposals gid data,
                              ledger := executedTransactions gid data\<rparr>)
                    else st))"

text \<open>
  A call of fetchProposals is successful when it reaches the two state updates: the id and
  the token are there, the response is ok and its body is read.
\<close>

definition fetchProposals_succeeds ::
  "transactions_payload fetch_result \<Rightarrow> 'a screen_state_scheme \<Rightarrow> bool" where
  "fetchProposals_succeeds resp st =
     (truthy_str (route_id st) \<and> truthy_str (authToken st) \<and>
      (case resp of NetworkError \<Rightarrow> False
       | Response is_ok b \<Rightarrow> is_ok \<and> b \<noteq> None))"

definition fetched :: "transactions_payload fetch_result \<Rightarrow> transaction list" where
  "fetched resp =
     (case resp of NetworkError \<Rightarrow> []
      | Response is_ok b \<Rightarrow>
          (case b of None \<Rightarrow> []
           | Some data \<Rightarrow> (case transactions data of None \<Rightarrow> [] | Some ts \<Rightarrow> ts)))"

subsection \<open>fetchGroupData and fetchPersonalBalance\<close>

text \<open>
  The parsed payload of \<^verbatim>\<open>GET /groups/{id}\<close> as fetchGroupData reads it: the optional
  \<^verbatim>\<open>data.group\<close> with its optional fields, and \<^verbatim>\<open>data.balance\<close>.
\<close>

record group_info =
  g_balance :: "js_num option"
  g_investedAmount :: "js_num option"
  g_totalAssets :: "js_num option"
  g_createdBy :: "string option"
  g_members :: "string list option"

record group_payload =
  group :: "group_info option"
  top_balance :: "js_num option"

text \<open>\<^verbatim>\<open>data.group?.field\<close>\<close>

definition group_field :: "(group_info \<Rightarrow> 'b option) \<Rightarrow> group_payload \<Rightarrow> 'b option" where
  "group_field f data = (case group data of None \<Rightarrow> None | Some g \<Rightarrow> f g)"

text \<open>\<^verbatim>\<open>a || b || 0\<close> on possibly missing numbers: the first truthy one, else 0.\<close>

fun first_truthy :: "js_num option list \<Rightarrow> js_num" where
  "first_truthy [] = Fin 0"
| "first_truthy (None # xs) = first_truthy xs"
| "first_truthy (Some n # xs) = (if num_truthy n then n else first_truthy xs)"

text \<open>
  The parsed payload of \<^verbatim>\<open>GET /users/all\<close>: the optional list \<^verbatim>\<open>usersData.users\<close> of
  user id and username. The \<^verbatim>\<open>forEach\<close> writes \<^verbatim>\<open>map[u.userId] = u.username\<close> in order, a
  later user overwriting an earlier one with the same id.
\<close>

record users_payload =
  users :: "(string \<times> string) list option"

definition profiles_of :: "users_payload \<Rightarrow> (string \<rightharpoonup> string)" where
  "profiles_of usersData =
     foldl (\<lambda>m (uid, uname). m(uid \<mapsto> uname)) Map.empty
       (case users usersData of None \<Rightarrow> [] | Some us \<Rightarrow> us)"

text \<open>
  fetchGroupData. \<open>round_cents\<close> stands for \<^verbatim>\<open>Math.round(x * 100) / 100\<close> in double arithmetic.
  The inner fetch of the usernames has its own try/catch.
\<close>

definition fetchGroupData ::
  "(js_num \<Rightarrow> js_num) \<Rightarrow> group_payload fetch_result \<Rightarrow> users_payload fetch_result \<Rightarrow>
   'a screen_state_scheme \<Rightarrow> 'a screen_state_scheme" where
  "fetchGroupData round_cents resp usersResp st =
     (if \<not> truthy_str (route_id st) then st
      else if \<not> truthy_str (authToken st) then st
      else (case resp of
              NetworkError \<Rightarrow> st
            | Response is_ok b \<Rightarrow>
                if is_ok then
                  (case b of
                     None \<Rightarrow> st
                   | Some data \<Rightarrow>
                       let membersArr = (case group_field g_members data of None \<Rightarrow> [] | Some ms \<Rightarrow> ms);
                           st1 = st\<lparr>ranchBalance :=
                                      round_cents (first_truthy [group_field g_balance data, top_balance data]),
                                    investedAmount :=
                                      round_cents (first_truthy [group_field g_investedAmount data]),
                                    totalAssets :=
                                      round_cents (first_truthy [group_field g_totalAssets data,
                                                            group_field g_balance data]),
                                    groupOwnerId :=
                                      (if truthy_str (group_field g_createdBy data)
                                       then group_field g_createdBy data else None),
                                    memberList := membersArr,
                                    memberCount := length membersArr\<rparr>
                       in (case usersResp of
                             NetworkError \<Rightarrow> st1
                           | Response users_ok ub \<Rightarrow>
                               if users_ok then
                                 (case ub of
                                    None \<Rightarrow> st1
                                  | Some usersData \<Rightarrow> st1\<lparr>memberProfiles := profiles_of usersData\<rparr>)
                               else st1))
                else st))"

text \<open>The parsed payload of \<^verbatim>\<open>GET /users/me\<close>: \<^verbatim>\<open>data.balance\<close>.\<close>

record me_payload =
  me_balance :: "js_num option"

definition fetchPersonalBalance ::
  "me_payload fetch_result \<Rightarrow> 'a screen_state_scheme \<Rightarrow> 'a screen_state_scheme" where
  "fetchPersonalBalance resp st =
     (if \<not> truthy_str (authToken st) then st
      else (case resp of
              NetworkError \<Rightarrow> st
            | Response is_ok b \<Rightarrow>
                if is_ok then
                  (case b of
                     None \<Rightarrow> st
                   | Some data \<Rightarrow> st\<lparr>personalBalance := first_truthy [me_balance data]\<rparr>)
                else st))"

subsection \<open>handleVote and handleExecute\<close>

text \<open>
  What the server will answer to the requests a handler sends after its own one: the
  refetches of the success path.
\<close>

record refetch =
  proposals_resp :: "transactions_payload fetch_result"
  group_resp :: "group_payload fetch_result"
  users_resp :: "users_payload fetch_result"
  me_resp :: "me_payload fetch_result"

text \<open>\<^verbatim>\<open>Alert.alert(title, message)\<close>; the message is a string or the server's \<^verbatim>\<open>detail\<close>.\<close>

datatype alert = Alert string js_value

text \<open>
  handleVote: the state after the handler and the alerts it raised, given the response to
  \<^verbatim>\<open>POST /transactions/{id}/vote\<close>. Everything is inside one try/catch, whose handler
  alerts a network error: it catches the rejection of fetch, the SyntaxError of
  \<^verbatim>\<open>response.json()\<close> and the TypeError of \<^verbatim>\<open>error.detail\<close> on \<^verbatim>\<open>null\<close>.
\<close>

definition handleVote ::
  "(js_num \<Rightarrow> js_num) \<Rightarrow> refetch \<Rightarrow> string \<Rightarrow> vote \<Rightarrow> js_value fetch_result \<Rightarrow>
   'a screen_state_scheme \<Rightarrow> alert list \<times> 'a screen_state_scheme" where
  "handleVote round_cents env transactionId v response st =
     (case response of
        NetworkError \<Rightarrow> ([Alert ''Error'' (JStr ''Network error occurred'')], st)
      | Response is_ok b \<Rightarrow>
          if is_ok then
            ([Alert ''Vote Recorded'' (JStr (''You voted to '' @ vote_str v @ '' this proposal''))],
             fetchGroupData round_cents (group_resp env) (users_resp env)
               (fetchProposals (proposals_resp env) st))
          else
            (case b of
               None \<Rightarrow> ([Alert ''Error'' (JStr ''Network error occurred'')], st)
             | Some error \<Rightarrow>
                 (case detail_or error ''Failed to vote'' of
                    Inl e \<Rightarrow> ([Alert ''Error'' (JStr ''Network error occurred'')], st)
                  | Inr m \<Rightarrow> ([Alert ''Error'' m], st))))"

text \<open>
  handleExecute: without a token it alerts and sends nothing (\<open>response\<close> is not looked
  at). On an ok response the body is read before the success alert, so an unreadable body
  ends in the catch.
\<close>

definition handleExecute ::
  "(js_num \<Rightarrow> js_num) \<Rightarrow> refetch \<Rightarrow> string \<Rightarrow> js_value fetch_result \<Rightarrow>
   'a screen_state_scheme \<Rightarrow> alert list \<times> 'a screen_state_scheme" where
  "handleExecute round_cents env transactionId response st =
     (if \<not> truthy_str (authToken st)
      then ([Alert ''Error'' (JStr ''Not authenticated. Please log in again.'')], st)
      else (case response of
              NetworkError \<Rightarrow> ([Alert ''Error'' (JStr ''Network error occurred'')], st)
            | Response is_ok b \<Rightarrow>
                if is_ok then
                  (case b of
                     None \<Rightarrow> ([Alert ''Error'' (JStr ''Network error occurred'')], st)
                   | Some result \<Rightarrow>
                       ([Alert ''Success!'' (JStr ''Transaction executed successfully!'')],
                        fetchPersonalBalance (me_resp env)
                          (fetchGroupData round_cents (group_resp env) (users_resp env)
                             (fetchProposals (proposals_resp env) st))))
                else
                  (case b of
                     None \<Rightarrow> ([Alert ''Error'' (JStr ''Network error occurred'')], st)
                   | Some error \<Rightarrow>
                       (case detail_or error ''Failed to execute'' of
                          Inl e \<Rightarrow> ([Alert ''Error'' (JStr ''Network error occurred'')], st)
                        | Inr m \<Rightarrow> ([Alert ''Error'' m], st)))))"

section \<open>AuthContext (contexts/AuthContext.tsx)\<close>

text \<open>
  SecureStore: what is stored under each key, and the keys on which a call rejects. A
  call on a key that does not reject resolves.
\<close>

record secure_store =
  content :: "string \<rightharpoonup> string"
  rejecting :: "string \<Rightarrow> bool"

datatype 'a promise = Rejects | Resolves 'a

definition getItemAsync :: "secure_store \<Rightarrow> string \<Rightarrow> string option promise" where
  "getItemAsync store key = (if rejecting store key then Rejects else Resolves (content store key))"

definition setItemAsync :: "secure_store \<Rightarrow> string \<Rightarrow> string \<Rightarrow> secure_store promise" where
  "setItemAsync store key v =
     (if rejecting store key then Rejects
      else Resolves (store\<lparr>content := (content store)(key \<mapsto> v)\<rparr>))"

definition deleteItemAsync :: "secure_store \<Rightarrow> string \<Rightarrow> secure_store promise" where
  "deleteItemAsync store key =
     (if rejecting store key then Rejects
      else Resolves (store\<lparr>content := (content store)(key := None)\<rparr>))"

record auth_state =
  isAuthenticated :: bool
  isLoading :: bool
  token :: "string option"
  userId :: "string option"
  username :: "string option"

text \<open>The initial values of the five \<^verbatim>\<open>useState\<close> cells of AuthProvider.\<close>

definition auth_initial :: auth_state where
  "auth_initial =
     \<lparr>isAuthenticated = False, isLoading = True, token = None, userId = None, username = None\<rparr>"

text \<open>
  checkAuth reads the three keys in order; a rejection is caught and logged; the
  \<^verbatim>\<open>finally\<close> block clears \<^verbatim>\<open>isLoading\<close> on every path.
\<close>

definition checkAuth :: "secure_store \<Rightarrow> auth_state \<Rightarrow> auth_state" where
  "checkAuth store st =
     (case getItemAsync store ''authToken'' of
        Rejects \<Rightarrow> st\<lparr>isLoading := False\<rparr>
      | Resolves storedToken \<Rightarrow>
          (case getItemAsync store ''userId'' of
             Rejects \<Rightarrow> st\<lparr>isLoading := False\<rparr>
           | Resolves storedUserId \<Rightarrow>
               (case getItemAsync store ''username'' of
                  Rejects \<Rightarrow> st\<lparr>isLoading := False\<rparr>
                | Resolves storedUsername \<Rightarrow>
                    if truthy_str storedToken \<and> truthy_str storedUserId
                    then st\<lparr>token := storedToken, userId := storedUserId,
                            username := storedUsername, isAuthenticated := True,
                            isLoading := False\<rparr>
                    else st\<lparr>isLoading := False\<rparr>)))"

text \<open>
  login and logout return whether they completed (\<open>Resolves\<close>) or rethrew the rejection
  of SecureStore (\<open>Rejects\<close>), with the store and the state they leave behind.
\<close>

definition login ::
  "string \<Rightarrow> string \<Rightarrow> string \<Rightarrow> secure_store \<Rightarrow> auth_state \<Rightarrow>
   unit promise \<times> secure_store \<times> auth_state" where
  "login newToken newUserId newUsername store st =
     (case setItemAsync store ''authToken'' newToken of
        Rejects \<Rightarrow> (Rejects, store, st)
      | Resolves store1 \<Rightarrow>
          (case setItemAsync store1 ''userId'' newUserId of
             Rejects \<Rightarrow> (Rejects, store1, st)
           | Resolves store2 \<Rightarrow>
               (case setItemAsync store2 ''username'' newUsername of
                  Rejects \<Rightarrow> (Rejects, store2, st)
                | Resolves store3 \<Rightarrow>
                    (Resolves (), store3,
                     st\<lparr>token := Some newToken, userId := Some newUserId,
                        username := Some newUsername, isAuthenticated := True\<rparr>))))"

definition logout ::
  "secure_store \<Rightarrow> auth_state \<Rightarrow> unit promise \<times> secure_store \<times> auth_state" where
  "logout store st =
     (case deleteItemAsync store ''authToken'' of
        Rejects \<Rightarrow> (Rejects, store, st)
      | Resolves store1 \<Rightarrow>
          (case deleteItemAsync store1 ''userId'' of
             Rejects \<Rightarrow> (Rejects, store1, st)
           | Resolves store2 \<Rightarrow>
               (case deleteItemAsync store2 ''username'' of
                  Rejects \<Rightarrow> (Rejects, store2, st)
                | Resolves store3 \<Rightarrow>
                    (Resolves (), store3,
                     st\<lparr>token := None, userId := None, username := None,
                        isAuthenticated := False\<rparr>))))"

text \<open>The invariant: an authenticated state has a token and a user id.\<close>

definition auth_inv :: "auth_state \<Rightarrow> bool" where
  "auth_inv st = (isAuthenticated st \<longrightarrow> token st \<noteq> None \<and> userId st \<noteq> None)"

section \<open>The proposal-rendering components\<close>

text \<open>
  What a rendered proposal shows, as far as it depends on the data: the status badge, the
  approval and rejection counts, the note beside them, the line with the user's own vote,
  and the buttons. A button carries the arguments its press hands to the vote or execute
  handler. Styling, the amount, the description and the timestamps are left out: they are
  copied or formatted from the proposal's fields.
\<close>

datatype control = VoteButton string vote | ExecuteButton string

datatype tally_note = MoreVotesNeeded nat | ReadyToExecute | FundsAdded | NotApproved | TotalVotes nat

record card_view =
  badge :: string
  counts :: "(nat \<times> nat) option"
  shown_note :: "tally_note option"
  voted_line :: "vote option"
  controls :: "control list"
  disabled :: "control list"

text \<open>\<^verbatim>\<open>Object.values(votes).filter((v) => v === choice).length\<close>\<close>

definition count_votes :: "vote \<Rightarrow> (string \<times> vote) list \<Rightarrow> nat" where
  "count_votes choice vs = length (filter (\<lambda>v. v = choice) (map snd vs))"

text \<open>
  The votes object is a plain object: besides its own entries it has the properties every
  object inherits from \<^verbatim>\<open>Object.prototype\<close> (\<^verbatim>\<open>toString\<close>, \<^verbatim>\<open>constructor\<close>, ...).
  \<^verbatim>\<open>Object.keys\<close> and \<^verbatim>\<open>Object.values\<close> see the own entries only; the property read
  \<^verbatim>\<open>votes[key]\<close> and the operator \<^verbatim>\<open>key in votes\<close> see the inherited ones too, an own entry
  first. Which names are inherited is fixed by the JavaScript engine, not by this
  repository: it is the parameter \<open>inherited\<close> of the components that read the votes that
  way. An inherited property is a function or an object: it is truthy and it is not the
  string \<^verbatim>\<open>"approve"\<close>.
\<close>

datatype vote_read = Own vote | Inherited | Missing

definition read_vote :: "(string \<Rightarrow> bool) \<Rightarrow> (string \<times> vote) list \<Rightarrow> string \<Rightarrow> vote_read" where
  "read_vote inherited vs key =
     (case map_of vs key of
        Some v \<Rightarrow> Own v
      | None \<Rightarrow> if inherited key then Inherited else Missing)"

text \<open>The operator \<^verbatim>\<open>key in votes\<close>.\<close>

definition in_votes :: "(string \<Rightarrow> bool) \<Rightarrow> string \<Rightarrow> (string \<times> vote) list \<Rightarrow> bool" where
  "in_votes inherited key vs = (key \<in> set (map fst vs) \<or> inherited key)"

subsection \<open>RanchScreen, the body of proposals.map (app/(tabs)/ranch.tsx)\<close>

text \<open>\<^verbatim>\<open>Math.ceil(memberCount / 2)\<close> on a member count, which is the length of an array.\<close>

definition votesNeeded :: "nat \<Rightarrow> nat" where
  "votesNeeded mc = (mc + 1) div 2"

text \<open>\<^verbatim>\<open>Math.max(0, votesNeeded - approveCount)\<close>\<close>

definition votesRemaining :: "nat \<Rightarrow> transaction \<Rightarrow> nat" where
  "votesRemaining mc proposal =
     nat (max 0 (int (votesNeeded mc) - int (count_votes Approve (votes proposal))))"

text \<open>\<^verbatim>\<open>statusConfig[proposal.status].text\<close>\<close>

fun status_text :: "status \<Rightarrow> string" where
  "status_text Pending = ''Pending''"
| "status_text Approved = ''Approved''"
| "status_text Rejected = ''Rejected''"
| "status_text Executed = ''Executed''"

text \<open>The text after the two counts.\<close>

fun status_note :: "nat \<Rightarrow> transaction \<Rightarrow> tally_note" where
  "status_note mc proposal =
     (if status proposal = Pending then MoreVotesNeeded (votesRemaining mc proposal)
      else if status proposal = Approved then ReadyToExecute
      else if status proposal = Executed then FundsAdded
      else NotApproved)"

text \<open>\<^verbatim>\<open>proposal.votes?.[currentUserId || ""]\<close>\<close>

definition ranch_userVote :: "(string \<Rightarrow> bool) \<Rightarrow> string option \<Rightarrow> transaction \<Rightarrow> vote_read" where
  "ranch_userVote inherited uid proposal =
     read_vote inherited (votes proposal) (case uid of None \<Rightarrow> [] | Some u \<Rightarrow> u)"

text \<open>
  \<^verbatim>\<open>userVote ? (userVote === "approve" ? approve : reject) : pending ? buttons : null\<close>: a
  missing property is \<^verbatim>\<open>undefined\<close>, anything else is truthy.
\<close>

definition RanchScreen_proposal ::
  "(string \<Rightarrow> bool) \<Rightarrow> nat \<Rightarrow> string option \<Rightarrow> transaction \<Rightarrow> card_view" where
  "RanchScreen_proposal inherited mc uid proposal =
     \<lparr>badge = status_text (status proposal),
      counts = Some (count_votes Approve (votes proposal), count_votes Reject (votes proposal)),
      shown_note = Some (status_note mc proposal),
      voted_line =
        (case ranch_userVote inherited uid proposal of
           Missing \<Rightarrow> None
         | Own userVote \<Rightarrow> Some (if userVote = Approve then Approve else Reject)
         | Inherited \<Rightarrow> Some Reject),
      controls =
        (case ranch_userVote inherited uid proposal of
           Missing \<Rightarrow>
             if status proposal = Pending
             then [VoteButton (transactionID proposal) Approve,
                   VoteButton (transactionID proposal) Reject]
             else []
         | Own userVote \<Rightarrow> []
         | Inherited \<Rightarrow> [])
        @ (if status proposal = Approved then [ExecuteButton (transactionID proposal)] else []),
      disabled = []\<rparr>"

text \<open>The proposals section maps every proposal of the state.\<close>

definition RanchScreen_proposals :: "(string \<Rightarrow> bool) \<Rightarrow> 'a screen_state_scheme \<Rightarrow> card_view list" where
  "RanchScreen_proposals inherited st =
     map (RanchScreen_proposal inherited (memberCount st) (currentUserId st)) (proposals st)"

subsection \<open>ProposalCard (components/ranch/ProposalCard)\<close>

text \<open>\<^verbatim>\<open>proposal.status.toUpperCase()\<close>\<close>

fun status_upper :: "status \<Rightarrow> string" where
  "status_upper Pending = ''PENDING''"
| "status_upper Approved = ''APPROVED''"
| "status_upper Rejected = ''REJECTED''"
| "status_upper Executed = ''EXECUTED''"

text \<open>\<^verbatim>\<open>Object.keys(proposal.votes).includes(currentUserId)\<close>: the own keys.\<close>

definition hasVoted :: "string \<Rightarrow> transaction \<Rightarrow> bool" where
  "hasVoted uid proposal = (uid \<in> set (map fst (votes proposal)))"

text \<open>
  \<^verbatim>\<open>userVote = proposal.votes[currentUserId]\<close> is shown only when \<open>hasVoted\<close>, and is then the
  own entry.
\<close>

definition ProposalCard :: "transaction \<Rightarrow> string \<Rightarrow> card_view" where
  "ProposalCard proposal uid =
     \<lparr>badge = status_upper (status proposal),
      counts = Some (count_votes Approve (votes proposal), count_votes Reject (votes proposal)),
      shown_note = None,
      voted_line =
        (if hasVoted uid proposal
         then Some (if map_of (votes proposal) uid = Some Approve then Approve else Reject)
         else None),
      controls =
        (if hasVoted uid proposal then []
         else if status proposal = Pending
         then [VoteButton (transactionID proposal) Approve,
               VoteButton (transactionID proposal) Reject]
         else [])
        @ (if status proposal = Approved then [ExecuteButton (transactionID proposal)] else []),
      disabled = []\<rparr>"

subsection \<open>TransactionCard (components/transaction-card.tsx)\<close>

text \<open>
  The optional props \<^verbatim>\<open>onVote\<close> and \<^verbatim>\<open>onExecute\<close> are given or not; \<^verbatim>\<open>isVoting\<close> and
  \<^verbatim>\<open>isExecuting\<close> are the two state cells of the card, which disable its buttons.
\<close>

record card_props =
  has_onVote :: bool
  has_onExecute :: bool
  isVoting :: bool
  isExecuting :: bool

text \<open>\<^verbatim>\<open>transaction.votes && currentUserId in transaction.votes\<close>\<close>

definition userHasVoted :: "(string \<Rightarrow> bool) \<Rightarrow> string \<Rightarrow> transaction \<Rightarrow> bool" where
  "userHasVoted inherited uid txn = in_votes inherited uid (votes txn)"

text \<open>\<^verbatim>\<open>userHasVoted ? transaction.votes[currentUserId] : null\<close>\<close>

definition card_userVote :: "(string \<Rightarrow> bool) \<Rightarrow> string \<Rightarrow> transaction \<Rightarrow> vote_read" where
  "card_userVote inherited uid txn =
     (if userHasVoted inherited uid txn then read_vote inherited (votes txn) uid else Missing)"

definition TransactionCard ::
  "(string \<Rightarrow> bool) \<Rightarrow> card_props \<Rightarrow> transaction \<Rightarrow> string \<Rightarrow> card_view" where
  "TransactionCard inherited props txn uid =
     (let approveCount = count_votes Approve (votes txn);
          rejectCount = count_votes Reject (votes txn);
          totalVotes = approveCount + rejectCount;
          vote_buttons =
            (if status txn = Pending \<and> \<not> userHasVoted inherited uid txn \<and> has_onVote props
             then [VoteButton (transactionID txn) Approve, VoteButton (transactionID txn) Reject]
             else []);
          execute_button =
            (if status txn = Approved \<and> has_onExecute props
             then [ExecuteButton (transactionID txn)] else [])
      in \<lparr>badge = status_upper (status txn),
          counts = (if status txn = Pending then Some (approveCount, rejectCount) else None),
          shown_note = (if status txn = Pending then Some (TotalVotes totalVotes) else None),
          voted_line =
            (if userHasVoted inherited uid txn
             then Some (if card_userVote inherited uid txn = Own Approve then Approve else Reject)
             else None),
          controls = vote_buttons @ execute_button,
          disabled = (if isVoting props then vote_buttons else [])
                     @ (if isExecuting props then execute_button else [])\<rparr>)"

section \<open>CreateTransactionModal.handleSubmit (components/StockTradingModal.tsx)\<close>

text \<open>
  \<^verbatim>\<open>String.prototype.trim\<close> on a string of code units below 256: tab, line feed, vertical
  tab, form feed, carriage return, space and no-break space are removed at both ends.
\<close>

definition is_space :: "char \<Rightarrow> bool" where
  "is_space c = (of_char c \<in> {9, 10, 11, 12, 13, 32, 160 :: nat})"

definition js_trim :: "string \<Rightarrow> string" where
  "js_trim s = rev (dropWhile is_space (rev (dropWhile is_space s)))"

record modal_state =
  form_description :: string
  form_amount :: string
  isSubmitting :: bool

text \<open>
  What handleSubmit does, in order: alerts, the call of the \<^verbatim>\<open>onSubmit\<close> prop with its two
  arguments, the call of \<^verbatim>\<open>onClose\<close>.
\<close>

datatype modal_event = ModalAlert string string | OnSubmit string js_num | OnClose

text \<open>
  How the promise of \<^verbatim>\<open>onSubmit\<close> settles: it resolves, rejects with an \<^verbatim>\<open>Error\<close> (and its
  message), or rejects with something else.
\<close>

datatype submit_result = Submitted | SubmitError string | SubmitFailure

text \<open>
  \<open>parseFloat\<close> and \<open>toFixed2\<close> (\<^verbatim>\<open>n.toFixed(2)\<close>) are the JavaScript built-ins, taken as
  parameters.
\<close>

definition handleSubmit ::
  "(string \<Rightarrow> js_num) \<Rightarrow> (js_num \<Rightarrow> string) \<Rightarrow> js_num \<Rightarrow> submit_result \<Rightarrow> modal_state \<Rightarrow>
   modal_event list \<times> modal_state" where
  "handleSubmit parseFloat toFixed2 groupBalance outcome st =
     (if js_trim (form_description st) = []
      then ([ModalAlert ''Error'' ''Please enter a description''], st)
      else
        let numAmount = parseFloat (form_amount st) in
        if \<not> num_truthy numAmount \<or> js_le numAmount (Fin 0)
        then ([ModalAlert ''Error'' ''Please enter a valid amount greater than 0''], st)
        else
          ((if js_less groupBalance numAmount
            then [ModalAlert ''Warning''
                    (''Amount ($'' @ toFixed2 numAmount @ '') exceeds group balance ($''
                     @ toFixed2 groupBalance
                     @ ''). Transaction can be proposed but not executed until sufficient funds.'')]
            else [])
           @ [OnSubmit (form_description st) numAmount]
           @ (case outcome of
                Submitted \<Rightarrow>
                  [OnClose, ModalAlert ''Success'' ''Transaction proposed! Members can now vote.'']
              | SubmitError m \<Rightarrow> [ModalAlert ''Error'' m]
              | SubmitFailure \<Rightarrow> [ModalAlert ''Error'' ''Failed to create transaction'']),
           (case outcome of
              Submitted \<Rightarrow> st\<lparr>form_description := [], form_amount := [], isSubmitting := False\<rparr>
            | SubmitError m \<Rightarrow> st\<lparr>isSubmitting := False\<rparr>
            | SubmitFailure \<Rightarrow> st\<lparr>isSubmitting := False\<rparr>)))"

section \<open>Sample data\<close>

text \<open>A ranch \<open>g1\<close> with five members and a handful of transactions, for the concrete instances.\<close>

definition mk_txn :: "string \<Rightarrow> string \<Rightarrow> status \<Rightarrow> (string \<times> vote) list \<Rightarrow> transaction" where
  "mk_txn tid gid s vs =
     \<lparr>transactionID = tid, groupID = gid, userID = ''u1'', amount = ''250.00'',
      description = ''Buy hay'', status = s, votes = vs,
      createdAt = ''2025-10-25T17:00:00'', proposedBy = Some ''u1'',
      transactionType = None, executedAt = None\<rparr>"

definition txn_pending :: transaction where
  "txn_pending = mk_txn ''t1'' ''g1'' Pending [(''u1'', Approve), (''u2'', Reject)]"

definition txn_approved :: transaction where
  "txn_approved = mk_txn ''t2'' ''g1'' Approved [(''u1'', Approve), (''u2'', Approve), (''u3'', Approve)]"

definition txn_executed :: transaction where
  "txn_executed = mk_txn ''t3'' ''g1'' Executed [(''u1'', Approve), (''u2'', Approve), (''u3'', Approve)]"

definition txn_other_group :: transaction where
  "txn_other_group = mk_txn ''t4'' ''g2'' Pending []"

definition sample_state :: screen_state where
  "sample_state =
     \<lparr>route_id = Some ''g1'', authToken = Some ''tok'', currentUserId = Some ''u3'',
      groupOwnerId = Some ''u1'', ranchBalance = Fin 1000, investedAmount = Fin 0,
      totalAssets = Fin 1000, memberList = [''u1'', ''u2'', ''u3'', ''u4'', ''u5''],
      memberProfiles = Map.empty, memberCount = 5, proposals = [txn_pending],
      ledger = [], personalBalance = Fin 10000\<rparr>"

definition sample_fetch :: "transactions_payload fetch_result" where
  "sample_fetch =
     Response True
       (Some \<lparr>transactions = Some [txn_pending, txn_other_group, txn_executed, txn_approved]\<rparr>)"

definition sample_store :: secure_store where
  "sample_store =
     \<lparr>content = [''authToken'' \<mapsto> ''tok'', ''userId'' \<mapsto> ''u3'', ''username'' \<mapsto> ''rancher''],
      rejecting = (\<lambda>key. False)\<rparr>"

definition sample_auth :: auth_state where
  "sample_auth =
     \<lparr>isAuthenticated = True, isLoading = False, token = Some ''tok'', userId = Some ''u3'',
      username = Some ''rancher''\<rparr>"

definition sample_request :: CreateTransactionRequest where
  "sample_request = \<lparr>req_groupId = ''g1'', req_amount = Fin 250, req_description = ''Buy hay''\<rparr>"

definition sample_refetch :: refetch where
  "sample_refetch =
     \<lparr>proposals_resp = sample_fetch, group_resp = NetworkError, users_resp = NetworkError,
      me_resp = NetworkError\<rparr>"

definition already_voted :: "js_value fetch_result" where
  "already_voted = Response False (Some (JObj [(''detail'', JStr ''You have already voted'')]))"

text \<open>The property names of \<^verbatim>\<open>Object.prototype\<close> in ECMAScript, with its legacy accessors.\<close>

definition Object_prototype :: "string \<Rightarrow> bool" where
  "Object_prototype key =
     (key \<in> set [''constructor'', ''hasOwnProperty'', ''isPrototypeOf'', ''propertyIsEnumerable'',
                 ''toLocaleString'', ''toString'', ''valueOf'', ''__proto__'',
                 ''__defineGetter__'', ''__defineSetter__'', ''__lookupGetter__'',
                 ''__lookupSetter__''])"

definition props_view_only :: card_props where
  "props_view_only =
     \<lparr>has_onVote = False, has_onExecute = False, isVoting = False, isExecuting = False\<rparr>"

definition sample_modal :: modal_state where
  "sample_modal = \<lparr>form_description = ''Buy hay'', form_amount = ''150'', isSubmitting = False\<rparr>"

section \<open>The proposal cards: tallies, vote buttons, execute button\<close>

lemma in_keys: "(u \<in> fst ` set vs) = (map_of vs u \<noteq> None)"
  by (simp add: map_of_eq_None_iff)

lemma vote_cases: "x \<noteq> Approve \<Longrightarrow> Reject = x"
  by (cases x) auto

lemma count_votes_sum: "count_votes Approve vs + count_votes Reject vs = length vs"
proof (induction vs)
  case Nil
  then show ?case by (simp add: count_votes_def)
next
  case (Cons a vs)
  then show ?case by (cases "snd a") (auto simp: count_votes_def)
qed

lemma count_votes_card:
  "distinct (map fst vs) \<Longrightarrow> count_votes c vs = card {u. map_of vs u = Some c}"
proof (induction vs)
  case Nil
  then show ?case by (simp add: count_votes_def)
next
  case (Cons a vs)
  obtain k v where a: "a = (k, v)" by (cases a)
  from Cons.prems a have k: "k \<notin> fst ` set vs" and d: "distinct (map fst vs)"
    by auto
  from k have n: "map_of vs k = None"
    by (simp add: map_of_eq_None_iff)
  have f: "finite {u. map_of vs u = Some c}"
    by (rule finite_subset [OF _ finite_dom_map_of [of vs]]) auto
  show ?case
  proof (cases "v = c")
    case True
    with n have "{u. map_of (a # vs) u = Some c} = insert k {u. map_of vs u = Some c}"
      by (auto simp: a)
    moreover from n have "k \<notin> {u. map_of vs u = Some c}" by simp
    ultimately have "card {u. map_of (a # vs) u = Some c} = Suc (card {u. map_of vs u = Some c})"
      using f by simp
    with Cons.IH [OF d] True show ?thesis
      by (simp add: count_votes_def a)
  next
    case False
    with n have "{u. map_of (a # vs) u = Some c} = {u. map_of vs u = Some c}"
      by (auto simp: a)
    with Cons.IH [OF d] False show ?thesis
      by (simp add: count_votes_def a)
  qed
qed

lemma votesRemaining_eq:
  "votesRemaining mc p = (mc + 1) div 2 - count_votes Approve (votes p)"
  by (simp add: votesRemaining_def votesNeeded_def)

lemma votesRemaining_zero:
  "votesRemaining mc p = 0 \<longleftrightarrow> mc \<le> 2 * count_votes Approve (votes p)"
  unfolding votesRemaining_eq by arith

text \<open>
  C1 (amended). The status badge is the server's status, but the figures are not delivered
  by the backend: every component tallies the approvals and rejections itself, by counting
  the \<open>approve\<close> and \<open>reject\<close> entries of the votes map it was given (together they are all
  its entries; with one entry per user they are the numbers of users who approved and who
  rejected). RanchScreen also computes a threshold of its own, half the member count
  rounded up, and on a pending proposal shows how many approvals are missing to reach it:
  none exactly when the member count is at most twice the approvals.
\<close>

theorem tallies_computed_by_client:
  "counts (RanchScreen_proposal inh mc uid p)
     = Some (count_votes Approve (votes p), count_votes Reject (votes p))
   \<and> counts (ProposalCard p u) = Some (count_votes Approve (votes p), count_votes Reject (votes p))
   \<and> (status p = Pending \<longrightarrow>
        counts (TransactionCard inh props p u)
          = Some (count_votes Approve (votes p), count_votes Reject (votes p)))
   \<and> count_votes Approve (votes p) + count_votes Reject (votes p) = length (votes p)
   \<and> (distinct (map fst (votes p)) \<longrightarrow>
        count_votes c (votes p) = card {voter. map_of (votes p) voter = Some c})
   \<and> (status p = Pending \<longrightarrow>
        shown_note (RanchScreen_proposal inh mc uid p) = Some (MoreVotesNeeded (votesRemaining mc p)))
   \<and> votesRemaining mc p = (mc + 1) div 2 - count_votes Approve (votes p)
   \<and> (votesRemaining mc p = 0 \<longleftrightarrow> mc \<le> 2 * count_votes Approve (votes p))
   \<and> badge (RanchScreen_proposal inh mc uid p) = status_text (status p)"
proof -
  have a: "counts (RanchScreen_proposal inh mc uid p)
     = Some (count_votes Approve (votes p), count_votes Reject (votes p))"
    by (simp add: RanchScreen_proposal_def)
  have b: "counts (ProposalCard p u) = Some (count_votes Approve (votes p), count_votes Reject (votes p))"
    by (simp add: ProposalCard_def)
  have c: "status p = Pending \<longrightarrow>
        counts (TransactionCard inh props p u)
          = Some (count_votes Approve (votes p), count_votes Reject (votes p))"
    by (simp add: TransactionCard_def Let_def)
  have d: "distinct (map fst (votes p)) \<longrightarrow>
        count_votes c (votes p) = card {voter. map_of (votes p) voter = Some c}"
    by (simp add: count_votes_card)
  have e: "status p = Pending \<longrightarrow>
        shown_note (RanchScreen_proposal inh mc uid p) = Some (MoreVotesNeeded (votesRemaining mc p))"
    by (simp add: RanchScreen_proposal_def)
  have f: "badge (RanchScreen_proposal inh mc uid p) = status_text (status p)"
    by (simp add: RanchScreen_proposal_def)
  show ?thesis
    by (intro conjI a b c d e f count_votes_sum votesRemaining_eq votesRemaining_zero)
qed

theorem tallies_computed_by_client_witness:
  "status txn_pending = Pending
   \<and> distinct (map fst (votes txn_pending))
   \<and> counts (TransactionCard Object_prototype props_view_only txn_pending ''u3'')
       = Some (count_votes Approve (votes txn_pending), count_votes Reject (votes txn_pending))
   \<and> count_votes Approve (votes txn_pending)
       = card {voter. map_of (votes txn_pending) voter = Some Approve}
   \<and> shown_note (RanchScreen_proposal Object_prototype 5 (Some ''u3'') txn_pending)
       = Some (MoreVotesNeeded (votesRemaining 5 txn_pending))"
proof -
  have h: "status txn_pending = Pending" "distinct (map fst (votes txn_pending))"
    by (simp_all add: txn_pending_def mk_txn_def)
  from tallies_computed_by_client
    [where p = txn_pending and c = Approve and mc = 5 and uid = "Some ''u3''" and u = "''u3''"
       and props = props_view_only and inh = Object_prototype] h
  show ?thesis by blast
qed

text \<open>
  The same pending proposal, one approval and one rejection in its votes map, is shown with
  2 more votes needed in a ranch of five and with 4 in a ranch of nine; the counts beside
  them are the numbers of entries of each kind in the votes map.
\<close>

theorem tallies_counterexample:
  "shown_note (RanchScreen_proposal Object_prototype 5 (Some ''u3'') txn_pending) = Some (MoreVotesNeeded 2)
   \<and> shown_note (RanchScreen_proposal Object_prototype 9 (Some ''u3'') txn_pending) = Some (MoreVotesNeeded 4)
   \<and> counts (RanchScreen_proposal Object_prototype 5 (Some ''u3'') txn_pending) = Some (1, 1)
   \<and> counts (RanchScreen_proposal Object_prototype 5 (Some ''u3'') txn_approved) = Some (3, 0)"
  by (simp add: RanchScreen_proposal_def votesRemaining_def votesNeeded_def count_votes_def
      txn_pending_def txn_approved_def mk_txn_def)

lemma RanchScreen_execute:
  "ExecuteButton tid \<in> set (controls (RanchScreen_proposal inh mc uid p)) \<longleftrightarrow>
     status p = Approved \<and> tid = transactionID p"
  by (auto simp: RanchScreen_proposal_def split: vote_read.splits)

lemma ProposalCard_execute:
  "ExecuteButton tid \<in> set (controls (ProposalCard p u)) \<longleftrightarrow>
     status p = Approved \<and> tid = transactionID p"
  by (auto simp: ProposalCard_def)

lemma TransactionCard_execute:
  "ExecuteButton tid \<in> set (controls (TransactionCard inh props p u)) \<longleftrightarrow>
     status p = Approved \<and> has_onExecute props \<and> tid = transactionID p"
  by (auto simp: TransactionCard_def Let_def)

lemma RanchScreen_proposals_execute:
  "(\<exists>view \<in> set (RanchScreen_proposals inh st). ExecuteButton tid \<in> set (controls view)) \<longleftrightarrow>
   (\<exists>q \<in> set (proposals st). status q = Approved \<and> transactionID q = tid)"
  by (auto simp: RanchScreen_proposals_def RanchScreen_execute)

text \<open>
  C4 (amended). RanchScreen and ProposalCard render the execute button of a proposal if and
  only if its status is approved; TransactionCard renders it if and only if the status is
  approved and an \<open>onExecute\<close> handler was passed. The button hands the proposal's own id to
  the handler, so no component offers an execute request for a pending, rejected or executed
  proposal.
\<close>

theorem execute_button_iff_approved:
  "(ExecuteButton tid \<in> set (controls (RanchScreen_proposal inh mc uid p)) \<longleftrightarrow>
      status p = Approved \<and> tid = transactionID p)
   \<and> (ExecuteButton tid \<in> set (controls (ProposalCard p u)) \<longleftrightarrow>
      status p = Approved \<and> tid = transactionID p)
   \<and> (ExecuteButton tid \<in> set (controls (TransactionCard inh props p u)) \<longleftrightarrow>
      status p = Approved \<and> has_onExecute props \<and> tid = transactionID p)
   \<and> ((\<exists>view \<in> set (RanchScreen_proposals inh st). ExecuteButton tid \<in> set (controls view)) \<longleftrightarrow>
      (\<exists>q \<in> set (proposals st). status q = Approved \<and> transactionID q = tid))
   \<and> (status p \<in> {Pending, Rejected, Executed} \<longrightarrow>
        ExecuteButton tid \<notin> set (controls (RanchScreen_proposal inh mc uid p))
      \<and> ExecuteButton tid \<notin> set (controls (ProposalCard p u))
      \<and> ExecuteButton tid \<notin> set (controls (TransactionCard inh props p u)))"
proof -
  have n: "status p \<in> {Pending, Rejected, Executed} \<longrightarrow>
        ExecuteButton tid \<notin> set (controls (RanchScreen_proposal inh mc uid p))
      \<and> ExecuteButton tid \<notin> set (controls (ProposalCard p u))
      \<and> ExecuteButton tid \<notin> set (controls (TransactionCard inh props p u))"
    by (auto simp: RanchScreen_execute ProposalCard_execute TransactionCard_execute)
  show ?thesis
    by (intro conjI RanchScreen_execute ProposalCard_execute TransactionCard_execute
        RanchScreen_proposals_execute n)
qed

theorem execute_button_iff_approved_witness:
  "status txn_pending \<in> {Pending, Rejected, Executed}
   \<and> ExecuteButton ''t1'' \<notin> set (controls (RanchScreen_proposal Object_prototype 5 (Some ''u3'') txn_pending))
   \<and> ExecuteButton ''t1'' \<notin> set (controls (ProposalCard txn_pending ''u3''))
   \<and> ExecuteButton ''t1'' \<notin> set (controls (TransactionCard Object_prototype props_view_only txn_pending ''u3''))"
proof -
  have h: "status txn_pending \<in> {Pending, Rejected, Executed}"
    by (simp add: txn_pending_def mk_txn_def)
  from execute_button_iff_approved
    [where p = txn_pending and tid = "''t1''" and mc = 5 and uid = "Some ''u3''" and u = "''u3''"
       and props = props_view_only and inh = Object_prototype] h
  show ?thesis by blast
qed

text \<open>An approved transaction in a TransactionCard without \<open>onExecute\<close>: no button at all.\<close>

theorem execute_button_counterexample:
  "status txn_approved = Approved
   \<and> controls (TransactionCard Object_prototype props_view_only txn_approved ''u4'') = []"
  by (simp add: TransactionCard_def Let_def props_view_only_def txn_approved_def mk_txn_def)

lemma read_vote_cases:
  "read_vote inh vs k = Own v \<longleftrightarrow> map_of vs k = Some v"
  "read_vote inh vs k = Missing \<longleftrightarrow> map_of vs k = None \<and> \<not> inh k"
  "read_vote inh vs k = Inherited \<longleftrightarrow> map_of vs k = None \<and> inh k"
  by (auto simp: read_vote_def split: option.splits)

lemma in_votes_iff: "in_votes inh k vs \<longleftrightarrow> map_of vs k \<noteq> None \<or> inh k"
  by (simp add: in_votes_def in_keys)

lemma RanchScreen_vote:
  "VoteButton tid c \<in> set (controls (RanchScreen_proposal inh mc uid p)) \<longleftrightarrow>
     status p = Pending \<and> map_of (votes p) (case uid of None \<Rightarrow> [] | Some u \<Rightarrow> u) = None
     \<and> \<not> inh (case uid of None \<Rightarrow> [] | Some u \<Rightarrow> u) \<and> tid = transactionID p"
proof (cases "ranch_userVote inh uid p")
  case (Own v)
  then have "map_of (votes p) (case uid of None \<Rightarrow> [] | Some u \<Rightarrow> u) = Some v"
    by (simp add: ranch_userVote_def read_vote_cases)
  with Own show ?thesis by (simp add: RanchScreen_proposal_def)
next
  case Inherited
  then have "inh (case uid of None \<Rightarrow> [] | Some u \<Rightarrow> u)"
    by (simp add: ranch_userVote_def read_vote_cases)
  with Inherited show ?thesis by (simp add: RanchScreen_proposal_def)
next
  case Missing
  then have "map_of (votes p) (case uid of None \<Rightarrow> [] | Some u \<Rightarrow> u) = None
      \<and> \<not> inh (case uid of None \<Rightarrow> [] | Some u \<Rightarrow> u)"
    by (simp add: ranch_userVote_def read_vote_cases)
  with Missing show ?thesis by (cases c) (auto simp: RanchScreen_proposal_def)
qed

lemma ProposalCard_vote:
  "VoteButton tid c \<in> set (controls (ProposalCard p u)) \<longleftrightarrow>
     status p = Pending \<and> map_of (votes p) u = None \<and> tid = transactionID p"
  by (cases c) (auto simp: ProposalCard_def hasVoted_def in_keys)

lemma TransactionCard_vote:
  "VoteButton tid c \<in> set (controls (TransactionCard inh props p u)) \<longleftrightarrow>
     status p = Pending \<and> map_of (votes p) u = None \<and> \<not> inh u \<and> has_onVote props
     \<and> tid = transactionID p"
  by (cases c) (auto simp: TransactionCard_def Let_def userHasVoted_def in_votes_iff)

lemma RanchScreen_voted_line:
  "voted_line (RanchScreen_proposal inh mc uid p) =
     (case map_of (votes p) (case uid of None \<Rightarrow> [] | Some u \<Rightarrow> u) of
        Some x \<Rightarrow> Some x
      | None \<Rightarrow> if inh (case uid of None \<Rightarrow> [] | Some u \<Rightarrow> u) then Some Reject else None)"
  by (auto simp: RanchScreen_proposal_def ranch_userVote_def read_vote_def vote_cases
      split: option.splits)

lemma ProposalCard_voted_line:
  "voted_line (ProposalCard p u) = map_of (votes p) u"
  by (cases "map_of (votes p) u") (auto simp: ProposalCard_def hasVoted_def in_keys vote_cases)

lemma TransactionCard_voted_line:
  "voted_line (TransactionCard inh props p u) =
     (case map_of (votes p) u of
        Some x \<Rightarrow> Some x
      | None \<Rightarrow> if inh u then Some Reject else None)"
  by (cases "map_of (votes p) u")
     (auto simp: TransactionCard_def Let_def userHasVoted_def card_userVote_def in_votes_iff
        read_vote_def vote_cases)

text \<open>
  A user id that names an inherited property of the votes object: RanchScreen and
  TransactionCard take the user for one who has voted, show a rejection as the user's vote
  and no vote button, on a pending transaction without any entry; ProposalCard, which asks
  \<^verbatim>\<open>Object.keys\<close>, shows the two buttons.
\<close>

lemma inherited_user_id:
  "voted_line (RanchScreen_proposal Object_prototype 5 (Some ''toString'') txn_other_group)
     = Some Reject
   \<and> controls (RanchScreen_proposal Object_prototype 5 (Some ''toString'') txn_other_group) = []
   \<and> voted_line
       (TransactionCard Object_prototype
          \<lparr>has_onVote = True, has_onExecute = True, isVoting = False, isExecuting = False\<rparr>
          txn_other_group ''toString'') = Some Reject
   \<and> controls
       (TransactionCard Object_prototype
          \<lparr>has_onVote = True, has_onExecute = True, isVoting = False, isExecuting = False\<rparr>
          txn_other_group ''toString'') = []
   \<and> controls (ProposalCard txn_other_group ''toString'')
       = [VoteButton ''t4'' Approve, VoteButton ''t4'' Reject]"
  by (simp add: RanchScreen_proposal_def TransactionCard_def ProposalCard_def Let_def
      ranch_userVote_def read_vote_def userHasVoted_def card_userVote_def in_votes_def
      hasVoted_def Object_prototype_def txn_other_group_def mk_txn_def)

text \<open>
  C5 (amended). ProposalCard renders the approve and reject buttons if and only if the
  proposal is pending and the votes map has no entry for the current user. For a current
  user id that is not the name of a property every object inherits, RanchScreen does the
  same with the key \<^verbatim>\<open>currentUserId || ""\<close> (the empty string while no user id is loaded), and
  TransactionCard does the same provided an \<open>onVote\<close> handler was passed; the line with the
  user's own vote then shows exactly the entry of the votes map. In all three components
  and for every user id, a user with an entry gets that line, with the recorded vote, and
  no vote button.
\<close>

theorem vote_buttons_iff_pending_unvoted:
  "(VoteButton tid c \<in> set (controls (ProposalCard p u)) \<longleftrightarrow>
      status p = Pending \<and> map_of (votes p) u = None \<and> tid = transactionID p)
   \<and> (\<not> inh (case uid of None \<Rightarrow> [] | Some k \<Rightarrow> k) \<longrightarrow>
       (VoteButton tid c \<in> set (controls (RanchScreen_proposal inh mc uid p)) \<longleftrightarrow>
          status p = Pending \<and> map_of (votes p) (case uid of None \<Rightarrow> [] | Some k \<Rightarrow> k) = None
          \<and> tid = transactionID p)
       \<and> voted_line (RanchScreen_proposal inh mc uid p)
            = map_of (votes p) (case uid of None \<Rightarrow> [] | Some k \<Rightarrow> k))
   \<and> (\<not> inh u \<longrightarrow>
       (VoteButton tid c \<in> set (controls (TransactionCard inh props p u)) \<longleftrightarrow>
          status p = Pending \<and> map_of (votes p) u = None \<and> has_onVote props
          \<and> tid = transactionID p)
       \<and> voted_line (TransactionCard inh props p u) = map_of (votes p) u)
   \<and> voted_line (ProposalCard p u) = map_of (votes p) u
   \<and> (map_of (votes p) u = Some x \<longrightarrow>
        voted_line (RanchScreen_proposal inh mc (Some u) p) = Some x
      \<and> voted_line (ProposalCard p u) = Some x
      \<and> voted_line (TransactionCard inh props p u) = Some x
      \<and> VoteButton tid c \<notin> set (controls (RanchScreen_proposal inh mc (Some u) p))
      \<and> VoteButton tid c \<notin> set (controls (ProposalCard p u))
      \<and> VoteButton tid c \<notin> set (controls (TransactionCard inh props p u)))"
proof -
  have r: "\<not> inh (case uid of None \<Rightarrow> [] | Some k \<Rightarrow> k) \<longrightarrow>
       (VoteButton tid c \<in> set (controls (RanchScreen_proposal inh mc uid p)) \<longleftrightarrow>
          status p = Pending \<and> map_of (votes p) (case uid of None \<Rightarrow> [] | Some k \<Rightarrow> k) = None
          \<and> tid = transactionID p)
       \<and> voted_line (RanchScreen_proposal inh mc uid p)
            = map_of (votes p) (case uid of None \<Rightarrow> [] | Some k \<Rightarrow> k)"
    by (simp add: RanchScreen_vote RanchScreen_voted_line split: option.splits)
  have t: "\<not> inh u \<longrightarrow>
       (VoteButton tid c \<in> set (controls (TransactionCard inh props p u)) \<longleftrightarrow>
          status p = Pending \<and> map_of (votes p) u = None \<and> has_onVote props
          \<and> tid = transactionID p)
       \<and> voted_line (TransactionCard inh props p u) = map_of (votes p) u"
    by (simp add: TransactionCard_vote TransactionCard_voted_line split: option.splits)
  have e: "map_of (votes p) u = Some x \<longrightarrow>
        voted_line (RanchScreen_proposal inh mc (Some u) p) = Some x
      \<and> voted_line (ProposalCard p u) = Some x
      \<and> voted_line (TransactionCard inh props p u) = Some x
      \<and> VoteButton tid c \<notin> set (controls (RanchScreen_proposal inh mc (Some u) p))
      \<and> VoteButton tid c \<notin> set (controls (ProposalCard p u))
      \<and> VoteButton tid c \<notin> set (controls (TransactionCard inh props p u))"
    by (simp add: RanchScreen_voted_line ProposalCard_voted_line TransactionCard_voted_line
        RanchScreen_vote ProposalCard_vote TransactionCard_vote)
  show ?thesis
    by (intro conjI ProposalCard_vote ProposalCard_voted_line r t e)
qed

theorem vote_buttons_iff_pending_unvoted_witness:
  "\<not> Object_prototype ''u2''
   \<and> map_of (votes txn_pending) ''u2'' = Some Reject
   \<and> voted_line (RanchScreen_proposal Object_prototype 5 (Some ''u2'') txn_pending) = Some Reject
   \<and> voted_line (ProposalCard txn_pending ''u2'') = Some Reject
   \<and> voted_line (TransactionCard Object_prototype props_view_only txn_pending ''u2'') = Some Reject
   \<and> VoteButton ''t1'' Approve
        \<notin> set (controls (RanchScreen_proposal Object_prototype 5 (Some ''u2'') txn_pending))
   \<and> VoteButton ''t1'' Approve \<notin> set (controls (ProposalCard txn_pending ''u2''))
   \<and> VoteButton ''t1'' Approve
        \<notin> set (controls (TransactionCard Object_prototype props_view_only txn_pending ''u2''))"
proof -
  have n: "\<not> Object_prototype ''u2''"
    by (simp add: Object_prototype_def)
  have h: "map_of (votes txn_pending) ''u2'' = Some Reject"
    by (simp add: txn_pending_def mk_txn_def)
  from vote_buttons_iff_pending_unvoted
    [where p = txn_pending and u = "''u2''" and x = Reject and mc = 5 and tid = "''t1''"
       and c = Approve and props = props_view_only and inh = Object_prototype
       and uid = "Some ''u2''"] n h
  show ?thesis by simp
qed

text \<open>
  A pending transaction on which user \<open>u4\<close> has not voted, in a TransactionCard without
  \<open>onVote\<close>: no vote button.
\<close>

theorem vote_buttons_counterexample:
  "status txn_pending = Pending
   \<and> map_of (votes txn_pending) ''u4'' = None
   \<and> \<not> Object_prototype ''u4''
   \<and> controls (TransactionCard Object_prototype props_view_only txn_pending ''u4'') = []"
  by (simp add: TransactionCard_def Let_def props_view_only_def txn_pending_def mk_txn_def
      Object_prototype_def)

section \<open>The API client: requests and results\<close>

lemma thrown_for_object:
  "thrown_for (Some (JObj kvs)) fb = Error (js_or (own_prop kvs ''detail'') (JStr fb))"
  by (simp add: thrown_for_def detail_or_def)

lemma getGroupTransactions_object:
  "fetch (getGroupTransactions_request g t) = Response is_ok (Some (JObj kvs)) \<longrightarrow>
   getGroupTransactions fetch g t =
     (if is_ok then Inr (own_prop kvs ''transactions'')
      else Inl (Error (js_or (own_prop kvs ''detail'') (JStr ''Failed to fetch transactions''))))"
  by (simp add: getGroupTransactions_def thrown_for_object)

lemma getTransactionHistory_object:
  "fetch (getTransactionHistory_request t) = Response is_ok (Some (JObj kvs)) \<longrightarrow>
   getTransactionHistory fetch t =
     (if is_ok then Inr (own_prop kvs ''transactions'')
      else Inl (Error (js_or (own_prop kvs ''detail'') (JStr ''Failed to fetch transaction history''))))"
  by (simp add: getTransactionHistory_def thrown_for_object)

lemma getTransaction_object:
  "fetch (getTransaction_request i t) = Response is_ok (Some (JObj kvs)) \<longrightarrow>
   getTransaction fetch i t =
     (if is_ok then Inr (own_prop kvs ''transaction'')
      else Inl (Error (js_or (own_prop kvs ''detail'') (JStr ''Failed to fetch transaction''))))"
  by (simp add: getTransaction_def thrown_for_object)

lemma createTransaction_object:
  "fetch (createTransaction_request r t) = Response is_ok (Some (JObj kvs)) \<longrightarrow>
   createTransaction fetch r t =
     (if is_ok then Inr (JObj kvs)
      else Inl (Error (js_or (own_prop kvs ''detail'') (JStr ''Failed to create transaction''))))"
  by (simp add: createTransaction_def thrown_for_object)

lemma voteOnTransaction_object:
  "fetch (voteOnTransaction_request i v t) = Response is_ok (Some (JObj kvs)) \<longrightarrow>
   voteOnTransaction fetch i v t =
     (if is_ok then Inr (JObj kvs)
      else Inl (Error (js_or (own_prop kvs ''detail'') (JStr ''Failed to vote on transaction''))))"
  by (simp add: voteOnTransaction_def thrown_for_object)

lemma executeTransaction_object:
  "fetch (executeTransaction_request i t) = Response is_ok (Some (JObj kvs)) \<longrightarrow>
   executeTransaction fetch i t =
     (if is_ok then Inr (JObj kvs)
      else Inl (Error (js_or (own_prop kvs ''detail'') (JStr ''Failed to execute transaction''))))"
  by (simp add: executeTransaction_def thrown_for_object)

text \<open>
  C2 (amended). When the response to a wrapper's request has a body that parses to a JSON
  object, the wrapper throws if and only if the response is not ok. What it throws is
  \<^verbatim>\<open>new Error(detail || fallback)\<close>: the body's \<open>detail\<close> when that is truthy (any non-empty
  string), the operation's fixed fallback string when \<open>detail\<close> is missing or falsy (the
  empty string, for one). On an ok response createTransaction, voteOnTransaction and
  executeTransaction return the parsed payload; getGroupTransactions and
  getTransactionHistory return its \<open>transactions\<close> property and getTransaction its
  \<open>transaction\<close> property.
\<close>

theorem api_wrappers_contract:
  "(fetch (getGroupTransactions_request groupId tok) = Response is_ok (Some (JObj kvs)) \<longrightarrow>
      getGroupTransactions fetch groupId tok =
        (if is_ok then Inr (own_prop kvs ''transactions'')
         else Inl (Error (js_or (own_prop kvs ''detail'') (JStr ''Failed to fetch transactions'')))))
   \<and> (fetch (getTransactionHistory_request tok) = Response is_ok (Some (JObj kvs)) \<longrightarrow>
      getTransactionHistory fetch tok =
        (if is_ok then Inr (own_prop kvs ''transactions'')
         else Inl (Error (js_or (own_prop kvs ''detail'')
                            (JStr ''Failed to fetch transaction history'')))))
   \<and> (fetch (getTransaction_request transactionId tok) = Response is_ok (Some (JObj kvs)) \<longrightarrow>
      getTransaction fetch transactionId tok =
        (if is_ok then Inr (own_prop kvs ''transaction'')
         else Inl (Error (js_or (own_prop kvs ''detail'') (JStr ''Failed to fetch transaction'')))))
   \<and> (fetch (createTransaction_request r tok) = Response is_ok (Some (JObj kvs)) \<longrightarrow>
      createTransaction fetch r tok =
        (if is_ok then Inr (JObj kvs)
         else Inl (Error (js_or (own_prop kvs ''detail'') (JStr ''Failed to create transaction'')))))
   \<and> (fetch (voteOnTransaction_request transactionId v tok) = Response is_ok (Some (JObj kvs)) \<longrightarrow>
      voteOnTransaction fetch transactionId v tok =
        (if is_ok then Inr (JObj kvs)
         else Inl (Error (js_or (own_prop kvs ''detail'') (JStr ''Failed to vote on transaction'')))))
   \<and> (fetch (executeTransaction_request transactionId tok) = Response is_ok (Some (JObj kvs)) \<longrightarrow>
      executeTransaction fetch transactionId tok =
        (if is_ok then Inr (JObj kvs)
         else Inl (Error (js_or (own_prop kvs ''detail'') (JStr ''Failed to execute transaction'')))))
   \<and> (\<forall>d fb. d \<noteq> [] \<longrightarrow> js_or (JStr d) (JStr fb) = JStr d)
   \<and> (\<forall>fb. js_or (JStr []) (JStr fb) = JStr fb)
   \<and> (\<forall>fb. js_or JUndefined (JStr fb) = JStr fb)"
proof -
  have c7: "\<forall>d fb. d \<noteq> [] \<longrightarrow> js_or (JStr d) (JStr fb) = JStr d"
    by (simp add: js_or_def)
  have c8: "\<forall>fb. js_or (JStr []) (JStr fb) = JStr fb"
    by (simp add: js_or_def)
  have c9: "\<forall>fb. js_or JUndefined (JStr fb) = JStr fb"
    by (simp add: js_or_def)
  show ?thesis
    by (intro conjI getGroupTransactions_object getTransactionHistory_object
        getTransaction_object createTransaction_object voteOnTransaction_object
        executeTransaction_object c7 c8 c9)
qed

theorem api_wrappers_contract_witness:
  "(\<lambda>req. already_voted) (voteOnTransaction_request ''t1'' Approve ''tok'')
     = Response False (Some (JObj [(''detail'', JStr ''You have already voted'')]))
   \<and> ''You have already voted'' \<noteq> []
   \<and> voteOnTransaction (\<lambda>req. already_voted) ''t1'' Approve ''tok''
     = Inl (Error (JStr ''You have already voted''))
   \<and> executeTransaction (\<lambda>req. already_voted) ''t1'' ''tok''
     = Inl (Error (JStr ''You have already voted''))
   \<and> getGroupTransactions (\<lambda>req. already_voted) ''g1'' ''tok''
     = Inl (Error (JStr ''You have already voted''))"
proof -
  have h: "(\<lambda>req. already_voted) q
      = Response False (Some (JObj [(''detail'', JStr ''You have already voted'')]))" for q :: request
    by (simp add: already_voted_def)
  have d: "own_prop [(''detail'', JStr ''You have already voted'')] ''detail''
      = JStr ''You have already voted''"
    by (simp add: own_prop_def)
  have n: "''You have already voted'' \<noteq> []"
    by simp
  from api_wrappers_contract
    [where fetch = "\<lambda>req. already_voted" and is_ok = False
       and kvs = "[(''detail'', JStr ''You have already voted'')]"
       and transactionId = "''t1''" and v = Approve and tok = "''tok''" and groupId = "''g1''"]
    h n
  show ?thesis unfolding d by simp
qed

text \<open>
  A response that is not ok with the empty string as \<open>detail\<close>: the Error carries the
  fallback. An ok response whose body is not JSON: the wrapper throws. An ok response to
  getGroupTransactions: the result is the \<open>transactions\<close> property, not the payload.
\<close>

theorem api_wrappers_counterexample:
  "createTransaction (\<lambda>req. Response False (Some (JObj [(''detail'', JStr [])])))
       sample_request ''tok''
     = Inl (Error (JStr ''Failed to create transaction''))
   \<and> executeTransaction (\<lambda>req. Response True None) ''t2'' ''tok'' = Inl SyntaxError
   \<and> getGroupTransactions
       (\<lambda>req. Response True (Some (JObj [(''transactions'', JArr [])]))) ''g1'' ''tok''
     = Inr (JArr [])"
  by (simp add: createTransaction_def executeTransaction_def getGroupTransactions_def
      thrown_for_def detail_or_def js_or_def own_prop_def)

lemma createTransaction_sends:
  "createTransaction
     (answering_only
        (\<lambda>req. documented POST ''/transactions'' tok req
              \<and> req_body req = Some (JObj [(''groupId'', JStr (req_groupId r)),
                                            (''amount'', JNum (req_amount r)),
                                            (''description'', JStr (req_description r))]))
        (Response True (Some d)))
     r tok = Inr d"
  "createTransaction
     (refusing
        (\<lambda>req. documented POST ''/transactions'' tok req
              \<and> req_body req = Some (JObj [(''groupId'', JStr (req_groupId r)),
                                            (''amount'', JNum (req_amount r)),
                                            (''description'', JStr (req_description r))]))
        fetch)
     r tok = Inl FetchFailed"
  "createTransaction fetch r tok =
   createTransaction
     (restricted_to
        (\<lambda>req. documented POST ''/transactions'' tok req
              \<and> req_body req = Some (JObj [(''groupId'', JStr (req_groupId r)),
                                            (''amount'', JNum (req_amount r)),
                                            (''description'', JStr (req_description r))]))
        fetch)
     r tok"
  by (simp_all add: createTransaction_def createTransaction_request_def documented_def
      answering_only_def refusing_def restricted_to_def)

lemma voteOnTransaction_sends:
  "voteOnTransaction
     (answering_only
        (\<lambda>req. documented POST (''/transactions/'' @ transactionId @ ''/vote'') tok req
              \<and> req_body req = Some (JObj [(''vote'', JStr (vote_str v))]))
        (Response True (Some d)))
     transactionId v tok = Inr d"
  "voteOnTransaction
     (refusing
        (\<lambda>req. documented POST (''/transactions/'' @ transactionId @ ''/vote'') tok req
              \<and> req_body req = Some (JObj [(''vote'', JStr (vote_str v))]))
        fetch)
     transactionId v tok = Inl FetchFailed"
  "voteOnTransaction fetch transactionId v tok =
   voteOnTransaction
     (restricted_to
        (\<lambda>req. documented POST (''/transactions/'' @ transactionId @ ''/vote'') tok req
              \<and> req_body req = Some (JObj [(''vote'', JStr (vote_str v))]))
        fetch)
     transactionId v tok"
  by (simp_all add: voteOnTransaction_def voteOnTransaction_request_def documented_def
      answering_only_def refusing_def restricted_to_def)

lemma executeTransaction_sends:
  "executeTransaction
     (answering_only
        (documented POST (''/transactions/'' @ transactionId @ ''/execute'') tok)
        (Response True (Some d)))
     transactionId tok = Inr d"
  "executeTransaction
     (refusing
        (documented POST (''/transactions/'' @ transactionId @ ''/execute'') tok)
        fetch)
     transactionId tok = Inl FetchFailed"
  "executeTransaction fetch transactionId tok =
   executeTransaction
     (restricted_to
        (documented POST (''/transactions/'' @ transactionId @ ''/execute'') tok)
        fetch)
     transactionId tok"
  by (simp_all add: executeTransaction_def executeTransaction_request_def documented_def
      answering_only_def refusing_def restricted_to_def)

lemma getGroupTransactions_sends:
  "getGroupTransactions
     (answering_only
        (documented GET (''/transactions?groupId='' @ groupId) tok)
        (Response True (Some d)))
     groupId tok = get_prop d ''transactions''"
  "getGroupTransactions
     (refusing
        (documented GET (''/transactions?groupId='' @ groupId) tok)
        fetch)
     groupId tok = Inl FetchFailed"
  "getGroupTransactions fetch groupId tok =
   getGroupTransactions
     (restricted_to
        (documented GET (''/transactions?groupId='' @ groupId) tok)
        fetch)
     groupId tok"
  by (simp_all add: getGroupTransactions_def getGroupTransactions_request_def documented_def
      answering_only_def refusing_def restricted_to_def)

lemma getTransactionHistory_sends:
  "getTransactionHistory
     (answering_only
        (documented GET ''/transactions/history/me'' tok)
        (Response True (Some d)))
     tok = get_prop d ''transactions''"
  "getTransactionHistory
     (refusing
        (documented GET ''/transactions/history/me'' tok)
        fetch)
     tok = Inl FetchFailed"
  "getTransactionHistory fetch tok =
   getTransactionHistory
     (restricted_to
        (documented GET ''/transactions/history/me'' tok)
        fetch)
     tok"
  by (simp_all add: getTransactionHistory_def getTransactionHistory_request_def documented_def
      answering_only_def refusing_def restricted_to_def)

lemma getTransaction_sends:
  "getTransaction
     (answering_only
        (documented GET (''/transactions/'' @ transactionId) tok)
        (Response True (Some d)))
     transactionId tok = get_prop d ''transaction''"
  "getTransaction
     (refusing
        (documented GET (''/transactions/'' @ transactionId) tok)
        fetch)
     transactionId tok = Inl FetchFailed"
  "getTransaction fetch transactionId tok =
   getTransaction
     (restricted_to
        (documented GET (''/transactions/'' @ transactionId) tok)
        fetch)
     transactionId tok"
  by (simp_all add: getTransaction_def getTransaction_request_def documented_def
      answering_only_def refusing_def restricted_to_def)

text \<open>
  C3. Every wrapper sends its request to the documented endpoint with the documented method
  and the bearer token. Put in front of a server that answers nothing but the documented
  request (createTransaction: POST /transactions with the request as body;
  voteOnTransaction: POST /transactions/{id}/vote with body \<open>{vote}\<close>; executeTransaction:
  POST /transactions/{id}/execute; the three read wrappers: GET; all with the header
  Authorization: Bearer <token> built from the token argument), the wrapper obtains the
  server's answer. Put in front of a server that fails on exactly that request, it fails,
  whatever the server answers to other requests. And its result never depends on what the
  server answers to any other request.
\<close>

theorem api_requests_documented:
  "(createTransaction
      (answering_only
         (\<lambda>req. documented POST ''/transactions'' tok req
               \<and> req_body req = Some (JObj [(''groupId'', JStr (req_groupId r)),
                                             (''amount'', JNum (req_amount r)),
                                             (''description'', JStr (req_description r))]))
         (Response True (Some d)))
      r tok = Inr d)
   \<and> (createTransaction
      (refusing
         (\<lambda>req. documented POST ''/transactions'' tok req
               \<and> req_body req = Some (JObj [(''groupId'', JStr (req_groupId r)),
                                             (''amount'', JNum (req_amount r)),
                                             (''description'', JStr (req_description r))]))
         fetch)
      r tok = Inl FetchFailed)
   \<and> (createTransaction fetch r tok =
    createTransaction
      (restricted_to
         (\<lambda>req. documented POST ''/transactions'' tok req
               \<and> req_body req = Some (JObj [(''groupId'', JStr (req_groupId r)),
                                             (''amount'', JNum (req_amount r)),
                                             (''description'', JStr (req_description r))]))
         fetch)
      r tok)
   \<and> (voteOnTransaction
      (answering_only
         (\<lambda>req. documented POST (''/transactions/'' @ transactionId @ ''/vote'') tok req
               \<and> req_body req = Some (JObj [(''vote'', JStr (vote_str v))]))
         (Response True (Some d)))
      transactionId v tok = Inr d)
   \<and> (voteOnTransaction
      (refusing
         (\<lambda>req. documented POST (''/transactions/'' @ transactionId @ ''/vote'') tok req
               \<and> req_body req = Some (JObj [(''vote'', JStr (vote_str v))]))
         fetch)
      transactionId v tok = Inl FetchFailed)
   \<and> (voteOnTransaction fetch transactionId v tok =
    voteOnTransaction
      (restricted_to
         (\<lambda>req. documented POST (''/transactions/'' @ transactionId @ ''/vote'') tok req
               \<and> req_body req = Some (JObj [(''vote'', JStr (vote_str v))]))
         fetch)
      transactionId v tok)
   \<and> (executeTransaction
      (answering_only
         (documented POST (''/transactions/'' @ transactionId @ ''/execute'') tok)
         (Response True (Some d)))
      transactionId tok = Inr d)
   \<and> (executeTransaction
      (refusing
         (documented POST (''/transactions/'' @ transactionId @ ''/execute'') tok)
         fetch)
      transactionId tok = Inl FetchFailed)
   \<and> (executeTransaction fetch transactionId tok =
    executeTransaction
      (restricted_to
         (documented POST (''/transactions/'' @ transactionId @ ''/execute'') tok)
         fetch)
      transactionId tok)
   \<and> (getGroupTransactions
      (answering_only
         (documented GET (''/transactions?groupId='' @ groupId) tok)
         (Response True (Some d)))
      groupId tok = get_prop d ''transactions'')
   \<and> (getGroupTransactions
      (refusing
         (documented GET (''/transactions?groupId='' @ groupId) tok)
         fetch)
      groupId tok = Inl FetchFailed)
   \<and> (getGroupTransactions fetch groupId tok =
    getGroupTransactions
      (restricted_to
         (documented GET (''/transactions?groupId='' @ groupId) tok)
         fetch)
      groupId tok)
   \<and> (getTransactionHistory
      (answering_only
         (documented GET ''/transactions/history/me'' tok)
         (Response True (Some d)))
      tok = get_prop d ''transactions'')
   \<and> (getTransactionHistory
      (refusing
         (documented GET ''/transactions/history/me'' tok)
         fetch)
      tok = Inl FetchFailed)
   \<and> (getTransactionHistory fetch tok =
    getTransactionHistory
      (restricted_to
         (documented GET ''/transactions/history/me'' tok)
         fetch)
      tok)
   \<and> (getTransaction
      (answering_only
         (documented GET (''/transactions/'' @ transactionId) tok)
         (Response True (Some d)))
      transactionId tok = get_prop d ''transaction'')
   \<and> (getTransaction
      (refusing
         (documented GET (''/transactions/'' @ transactionId) tok)
         fetch)
      transactionId tok = Inl FetchFailed)
   \<and> (getTransaction fetch transactionId tok =
    getTransaction
      (restricted_to
         (documented GET (''/transactions/'' @ transactionId) tok)
         fetch)
      transactionId tok)"
  by (intro conjI createTransaction_sends voteOnTransaction_sends executeTransaction_sends
      getGroupTransactions_sends getTransactionHistory_sends getTransaction_sends)

section \<open>RanchScreen: failed requests\<close>

lemma detail_or_cases:
  "detail_or error fb = Inl TypeError
   \<or> detail_or error fb = Inr (JStr fb)
   \<or> (\<exists>d. get_prop error ''detail'' = Inr d \<and> truthy d \<and> detail_or error fb = Inr d)"
  by (cases error) (auto simp: detail_or_def js_or_def)

lemma handleVote_failed:
  "\<exists>m. handleVote round_cents env tid v (Response False b) st = ([Alert ''Error'' m], st)
     \<and> (m = JStr ''Network error occurred'' \<or> m = JStr ''Failed to vote''
        \<or> (\<exists>error. b = Some error \<and> get_prop error ''detail'' = Inr m \<and> truthy m))"
proof (cases b)
  case None
  then show ?thesis by (simp add: handleVote_def)
next
  case (Some error)
  with detail_or_cases [of error "''Failed to vote''"] show ?thesis
    by (auto simp: handleVote_def)
qed

lemma handleExecute_failed:
  "truthy_str (authToken st) \<longrightarrow>
   (\<exists>m. handleExecute round_cents env tid (Response False b) st = ([Alert ''Error'' m], st)
     \<and> (m = JStr ''Network error occurred'' \<or> m = JStr ''Failed to execute''
        \<or> (\<exists>error. b = Some error \<and> get_prop error ''detail'' = Inr m \<and> truthy m)))"
proof (cases b)
  case None
  then show ?thesis by (simp add: handleExecute_def)
next
  case (Some error)
  with detail_or_cases [of error "''Failed to execute''"] show ?thesis
    by (auto simp: handleExecute_def)
qed

lemma handleExecute_state:
  "snd (handleExecute round_cents env tid (Response False b) st) = st"
  by (auto simp: handleExecute_def split: option.splits sum.splits)

lemma handle_network_error:
  "handleVote round_cents env tid v NetworkError st
     = ([Alert ''Error'' (JStr ''Network error occurred'')], st)"
  "snd (handleExecute round_cents env tid NetworkError st) = st"
  by (simp_all add: handleVote_def handleExecute_def)

lemma handle_detail:
  "b = Some (JObj kvs) \<and> map_of kvs ''detail'' = Some (JStr d) \<and> d \<noteq> [] \<longrightarrow>
     handleVote round_cents env tid v (Response False b) st = ([Alert ''Error'' (JStr d)], st)
   \<and> (truthy_str (authToken st) \<longrightarrow>
        handleExecute round_cents env tid (Response False b) st = ([Alert ''Error'' (JStr d)], st))"
  by (simp add: handleVote_def handleExecute_def detail_or_def js_or_def own_prop_def)

text \<open>
  C6. A vote or execute request that comes back not ok leaves the whole screen state as it
  was, whatever the server would answer to a refetch, and raises exactly one alert, titled
  Error: its message is the \<open>detail\<close> of the response body when that is truthy (a non-empty
  string \<open>detail\<close> is shown as it is), else the fixed fallback of the handler, or the fixed
  network-error text when the body cannot be read. The same holds when the request itself
  fails.
\<close>

theorem failed_request_changes_nothing:
  "(\<exists>m. handleVote round_cents env tid v (Response False b) st = ([Alert ''Error'' m], st)
       \<and> (m = JStr ''Network error occurred'' \<or> m = JStr ''Failed to vote''
          \<or> (\<exists>error. b = Some error \<and> get_prop error ''detail'' = Inr m \<and> truthy m)))
   \<and> (truthy_str (authToken st) \<longrightarrow>
       (\<exists>m. handleExecute round_cents env tid (Response False b) st = ([Alert ''Error'' m], st)
          \<and> (m = JStr ''Network error occurred'' \<or> m = JStr ''Failed to execute''
             \<or> (\<exists>error. b = Some error \<and> get_prop error ''detail'' = Inr m \<and> truthy m))))
   \<and> snd (handleExecute round_cents env tid (Response False b) st) = st
   \<and> handleVote round_cents env tid v NetworkError st
       = ([Alert ''Error'' (JStr ''Network error occurred'')], st)
   \<and> snd (handleExecute round_cents env tid NetworkError st) = st
   \<and> (\<forall>kvs d. b = Some (JObj kvs) \<and> map_of kvs ''detail'' = Some (JStr d) \<and> d \<noteq> [] \<longrightarrow>
         handleVote round_cents env tid v (Response False b) st = ([Alert ''Error'' (JStr d)], st)
       \<and> (truthy_str (authToken st) \<longrightarrow>
            handleExecute round_cents env tid (Response False b) st
              = ([Alert ''Error'' (JStr d)], st)))"
proof -
  have c: "\<forall>kvs d. b = Some (JObj kvs) \<and> map_of kvs ''detail'' = Some (JStr d) \<and> d \<noteq> [] \<longrightarrow>
         handleVote round_cents env tid v (Response False b) st = ([Alert ''Error'' (JStr d)], st)
       \<and> (truthy_str (authToken st) \<longrightarrow>
            handleExecute round_cents env tid (Response False b) st
              = ([Alert ''Error'' (JStr d)], st))"
    using handle_detail by blast
  show ?thesis
    by (intro conjI handleVote_failed handleExecute_failed handleExecute_state
        handle_network_error c)
qed

theorem failed_request_changes_nothing_witness:
  "truthy_str (authToken sample_state)
   \<and> handleVote (\<lambda>n. n) sample_refetch ''t1'' Approve already_voted sample_state
      = ([Alert ''Error'' (JStr ''You have already voted'')], sample_state)
   \<and> handleExecute (\<lambda>n. n) sample_refetch ''t1'' already_voted sample_state
      = ([Alert ''Error'' (JStr ''You have already voted'')], sample_state)"
proof -
  have h: "truthy_str (authToken sample_state)"
    by (simp add: sample_state_def)
  have a: "already_voted
      = Response False (Some (JObj [(''detail'', JStr ''You have already voted'')]))"
    by (simp add: already_voted_def)
  have "\<forall>kvs d. Some (JObj [(''detail'', JStr ''You have already voted'')]) = Some (JObj kvs)
           \<and> map_of kvs ''detail'' = Some (JStr d) \<and> d \<noteq> [] \<longrightarrow>
         handleVote (\<lambda>n. n) sample_refetch ''t1'' Approve
            (Response False (Some (JObj [(''detail'', JStr ''You have already voted'')]))) sample_state
          = ([Alert ''Error'' (JStr d)], sample_state)
         \<and> (truthy_str (authToken sample_state) \<longrightarrow>
            handleExecute (\<lambda>n. n) sample_refetch ''t1''
              (Response False (Some (JObj [(''detail'', JStr ''You have already voted'')]))) sample_state
            = ([Alert ''Error'' (JStr d)], sample_state))"
    using failed_request_changes_nothing
      [where round_cents = "\<lambda>n. n" and env = sample_refetch and tid = "''t1''" and v = Approve
         and b = "Some (JObj [(''detail'', JStr ''You have already voted'')])"
         and st = sample_state]
    by (elim conjE)
  then have "handleVote (\<lambda>n. n) sample_refetch ''t1'' Approve
            (Response False (Some (JObj [(''detail'', JStr ''You have already voted'')]))) sample_state
          = ([Alert ''Error'' (JStr ''You have already voted'')], sample_state)
         \<and> (truthy_str (authToken sample_state) \<longrightarrow>
            handleExecute (\<lambda>n. n) sample_refetch ''t1''
              (Response False (Some (JObj [(''detail'', JStr ''You have already voted'')]))) sample_state
            = ([Alert ''Error'' (JStr ''You have already voted'')], sample_state))"
    by simp
  with h show ?thesis unfolding a by blast
qed

section \<open>AuthContext: the invariant\<close>

lemma checkAuth_inv: "auth_inv st \<Longrightarrow> auth_inv (checkAuth store st)"
  by (cases "content store ''authToken''"; cases "content store ''userId''")
     (auto simp: auth_inv_def checkAuth_def getItemAsync_def)

lemma login_inv: "auth_inv st \<Longrightarrow> auth_inv (snd (snd (login t u n store st)))"
  by (auto simp: auth_inv_def login_def setItemAsync_def)

lemma logout_inv: "auth_inv st \<Longrightarrow> auth_inv (snd (snd (logout store st)))"
  by (auto simp: auth_inv_def logout_def deleteItemAsync_def)

lemma logout_completed:
  "fst (logout store st) = Resolves () \<Longrightarrow>
     snd (snd (logout store st)) =
       st\<lparr>token := None, userId := None, username := None, isAuthenticated := False\<rparr>"
  by (auto simp: logout_def deleteItemAsync_def split: if_splits)

text \<open>
  C8. Whenever \<open>isAuthenticated\<close> is true, the token and the user id are not null: this holds
  of the initial state and is preserved by checkAuth, by login and by logout, whether
  SecureStore resolves or rejects; and after a logout that completed, the token, the user
  id and the username are null and \<open>isAuthenticated\<close> is false.
\<close>

theorem auth_invariant:
  assumes "auth_inv st"
  shows "auth_inv auth_initial
       \<and> auth_inv (checkAuth store st)
       \<and> auth_inv (snd (snd (login newToken newUserId newUsername store st)))
       \<and> auth_inv (snd (snd (logout store st)))
       \<and> (fst (logout store st) = Resolves () \<longrightarrow>
            token (snd (snd (logout store st))) = None
          \<and> userId (snd (snd (logout store st))) = None
          \<and> username (snd (snd (logout store st))) = None
          \<and> \<not> isAuthenticated (snd (snd (logout store st))))"
proof -
  have i: "auth_inv auth_initial"
    by (simp add: auth_inv_def auth_initial_def)
  have o: "fst (logout store st) = Resolves () \<longrightarrow>
            token (snd (snd (logout store st))) = None
          \<and> userId (snd (snd (logout store st))) = None
          \<and> username (snd (snd (logout store st))) = None
          \<and> \<not> isAuthenticated (snd (snd (logout store st)))"
    by (auto dest: logout_completed)
  show ?thesis
    by (intro conjI i o checkAuth_inv [OF assms] login_inv [OF assms] logout_inv [OF assms])
qed

theorem auth_invariant_witness:
  "auth_inv sample_auth
   \<and> isAuthenticated sample_auth
   \<and> fst (logout sample_store sample_auth) = Resolves ()
   \<and> auth_inv (checkAuth sample_store sample_auth)
   \<and> auth_inv (snd (snd (login ''tok2'' ''u4'' ''drover'' sample_store sample_auth)))
   \<and> token (snd (snd (logout sample_store sample_auth))) = None
   \<and> userId (snd (snd (logout sample_store sample_auth))) = None
   \<and> username (snd (snd (logout sample_store sample_auth))) = None
   \<and> \<not> isAuthenticated (snd (snd (logout sample_store sample_auth)))"
proof -
  have h: "auth_inv sample_auth"
    by (simp add: auth_inv_def sample_auth_def)
  have a: "isAuthenticated sample_auth"
    by (simp add: sample_auth_def)
  have c: "fst (logout sample_store sample_auth) = Resolves ()"
    by (simp add: logout_def deleteItemAsync_def sample_store_def)
  from auth_invariant [OF h, where store = sample_store and newToken = "''tok2''"
      and newUserId = "''u4''" and newUsername = "''drover''"] h a c
  show ?thesis by blast
qed

section \<open>RanchScreen: proposals and ledger\<close>

lemma fetchProposals_success_state:
  assumes "fetchProposals_succeeds resp st"
  obtains gid data where "route_id st = Some gid" "resp = Response True (Some data)"
    "fetchProposals resp st =
       st\<lparr>proposals := pendingProposals gid data, ledger := executedTransactions gid data\<rparr>"
proof -
  from assms obtain gid where g: "route_id st = Some gid"
    by (cases "route_id st") (auto simp: fetchProposals_succeeds_def)
  from assms obtain data where r: "resp = Response True (Some data)"
    by (cases resp) (auto simp: fetchProposals_succeeds_def)
  from assms g r have
    "fetchProposals resp st =
       st\<lparr>proposals := pendingProposals gid data, ledger := executedTransactions gid data\<rparr>"
    by (simp add: fetchProposals_def fetchProposals_succeeds_def)
  with g r show thesis by (rule that)
qed

text \<open>
  C9. After a successful fetchProposals the proposals and the ledger partition the
  fetched transactions of the current ranch: a fetched transaction is in proposals
  exactly when its groupID is the route id and its status is not executed, in the ledger
  exactly when its groupID is the route id and its status is executed; nothing is in both,
  a transaction of another group is in neither, and (counting repetitions) the two lists
  together are the fetched transactions of this group.
\<close>

theorem fetchProposals_partition:
  assumes "fetchProposals_succeeds resp st"
  shows "set (proposals (fetchProposals resp st)) =
           {t \<in> set (fetched resp). Some (groupID t) = route_id st \<and> status t \<noteq> Executed}
       \<and> set (ledger (fetchProposals resp st)) =
           {t \<in> set (fetched resp). Some (groupID t) = route_id st \<and> status t = Executed}
       \<and> set (proposals (fetchProposals resp st)) \<inter> set (ledger (fetchProposals resp st)) = {}
       \<and> mset (proposals (fetchProposals resp st)) + mset (ledger (fetchProposals resp st)) =
           mset (filter (\<lambda>t. Some (groupID t) = route_id st) (fetched resp))"
proof -
  from assms obtain gid data where g: "route_id st = Some gid"
    and r: "resp = Response True (Some data)"
    and s: "fetchProposals resp st =
       st\<lparr>proposals := pendingProposals gid data, ledger := executedTransactions gid data\<rparr>"
    by (rule fetchProposals_success_state)
  have f: "thisGroupTransactions gid data = filter (\<lambda>t. groupID t = gid) (fetched resp)"
    by (simp add: thisGroupTransactions_def fetched_def r)
  have p: "proposals (fetchProposals resp st) =
      filter (\<lambda>t. status t \<noteq> Executed) (filter (\<lambda>t. groupID t = gid) (fetched resp))"
    by (simp add: s pendingProposals_def f)
  have l: "ledger (fetchProposals resp st) =
      filter (\<lambda>t. status t = Executed) (filter (\<lambda>t. groupID t = gid) (fetched resp))"
    by (simp add: s executedTransactions_def f)
  have eq: "\<And>t. (Some (groupID t) = route_id st) = (groupID t = gid)"
    by (simp add: g)
  have m: "mset (filter (\<lambda>t. status t \<noteq> Executed) xs) + mset (filter (\<lambda>t. status t = Executed) xs)
      = mset xs" for xs :: "transaction list"
    by (induction xs) auto
  have c1: "set (proposals (fetchProposals resp st)) =
      {t \<in> set (fetched resp). Some (groupID t) = route_id st \<and> status t \<noteq> Executed}"
    unfolding p eq by auto
  have c2: "set (ledger (fetchProposals resp st)) =
      {t \<in> set (fetched resp). Some (groupID t) = route_id st \<and> status t = Executed}"
    unfolding l eq by auto
  have c3: "set (proposals (fetchProposals resp st)) \<inter> set (ledger (fetchProposals resp st)) = {}"
    unfolding p l by auto
  have c4: "mset (proposals (fetchProposals resp st)) + mset (ledger (fetchProposals resp st)) =
      mset (filter (\<lambda>t. Some (groupID t) = route_id st) (fetched resp))"
    unfolding p l eq by (rule m)
  from c1 c2 c3 c4 show ?thesis by blast
qed

theorem fetchProposals_partition_witness:
  "fetchProposals_succeeds sample_fetch sample_state
   \<and> proposals (fetchProposals sample_fetch sample_state) = [txn_pending, txn_approved]
   \<and> ledger (fetchProposals sample_fetch sample_state) = [txn_executed]
   \<and> mset (proposals (fetchProposals sample_fetch sample_state))
       + mset (ledger (fetchProposals sample_fetch sample_state))
       = mset (filter (\<lambda>t. Some (groupID t) = route_id sample_state) (fetched sample_fetch))"
proof -
  have h: "fetchProposals_succeeds sample_fetch sample_state"
    by (simp add: fetchProposals_succeeds_def sample_fetch_def sample_state_def)
  have p: "proposals (fetchProposals sample_fetch sample_state) = [txn_pending, txn_approved]"
    by (simp add: fetchProposals_def sample_fetch_def sample_state_def pendingProposals_def
        thisGroupTransactions_def txn_pending_def txn_approved_def txn_executed_def
        txn_other_group_def mk_txn_def)
  have l: "ledger (fetchProposals sample_fetch sample_state) = [txn_executed]"
    by (simp add: fetchProposals_def sample_fetch_def sample_state_def executedTransactions_def
        thisGroupTransactions_def txn_pending_def txn_approved_def txn_executed_def
        txn_other_group_def mk_txn_def)
  from fetchProposals_partition [OF h] have
    "mset (proposals (fetchProposals sample_fetch sample_state))
      + mset (ledger (fetchProposals sample_fetch sample_state))
      = mset (filter (\<lambda>t. Some (groupID t) = route_id sample_state) (fetched sample_fetch))"
    by blast
  with h p l show ?thesis by blast
qed

section \<open>CreateTransactionModal: when the proposal is submitted\<close>

lemma positive_iff: "js_less (Fin 0) n = (\<not> (\<not> num_truthy n \<or> js_le n (Fin 0)))"
  by (cases n) auto

lemma handleSubmit_accepted:
  "js_trim (form_description st) \<noteq> [] \<Longrightarrow> js_less (Fin 0) (pf (form_amount st)) \<Longrightarrow>
   fst (handleSubmit pf tf gb out st) =
     (if js_less gb (pf (form_amount st))
      then [ModalAlert ''Warning''
              (''Amount ($'' @ tf (pf (form_amount st)) @ '') exceeds group balance ($''
               @ tf gb
               @ ''). Transaction can be proposed but not executed until sufficient funds.'')]
      else [])
     @ [OnSubmit (form_description st) (pf (form_amount st))]
     @ (case out of
          Submitted \<Rightarrow>
            [OnClose, ModalAlert ''Success'' ''Transaction proposed! Members can now vote.'']
        | SubmitError m \<Rightarrow> [ModalAlert ''Error'' m]
        | SubmitFailure \<Rightarrow> [ModalAlert ''Error'' ''Failed to create transaction''])"
  by (simp add: handleSubmit_def Let_def positive_iff)

text \<open>
  C10. handleSubmit calls \<open>onSubmit\<close> if and only if the trimmed description is not empty
  and \<open>parseFloat(amount)\<close> is a number greater than 0; the call, when made, has the
  description and the parsed amount as arguments. An amount above the group balance raises
  the warning alert, and the call is made all the same.
\<close>

theorem handleSubmit_onSubmit_iff:
  "((\<exists>d n. OnSubmit d n \<in> set (fst (handleSubmit pf tf gb out st))) \<longleftrightarrow>
      (js_trim (form_description st) \<noteq> [] \<and> js_less (Fin 0) (pf (form_amount st))))
   \<and> (\<forall>d n. OnSubmit d n \<in> set (fst (handleSubmit pf tf gb out st)) \<longrightarrow>
         d = form_description st \<and> n = pf (form_amount st))
   \<and> ((\<exists>m. ModalAlert ''Warning'' m \<in> set (fst (handleSubmit pf tf gb out st))) \<longleftrightarrow>
        (js_trim (form_description st) \<noteq> [] \<and> js_less (Fin 0) (pf (form_amount st))
         \<and> js_less gb (pf (form_amount st))))
   \<and> ((\<exists>m. ModalAlert ''Warning'' m \<in> set (fst (handleSubmit pf tf gb out st))) \<longrightarrow>
        OnSubmit (form_description st) (pf (form_amount st))
          \<in> set (fst (handleSubmit pf tf gb out st)))"
proof (cases "js_trim (form_description st) \<noteq> [] \<and> js_less (Fin 0) (pf (form_amount st))")
  case True
  then have e: "fst (handleSubmit pf tf gb out st) =
     (if js_less gb (pf (form_amount st))
      then [ModalAlert ''Warning''
              (''Amount ($'' @ tf (pf (form_amount st)) @ '') exceeds group balance ($''
               @ tf gb
               @ ''). Transaction can be proposed but not executed until sufficient funds.'')]
      else [])
     @ [OnSubmit (form_description st) (pf (form_amount st))]
     @ (case out of
          Submitted \<Rightarrow>
            [OnClose, ModalAlert ''Success'' ''Transaction proposed! Members can now vote.'']
        | SubmitError m \<Rightarrow> [ModalAlert ''Error'' m]
        | SubmitFailure \<Rightarrow> [ModalAlert ''Error'' ''Failed to create transaction''])"
    by (simp add: handleSubmit_accepted)
  from True show ?thesis
    unfolding e by (cases out) auto
next
  case False
  then have e: "fst (handleSubmit pf tf gb out st) =
      [ModalAlert ''Error'' ''Please enter a description'']
    \<or> fst (handleSubmit pf tf gb out st) =
      [ModalAlert ''Error'' ''Please enter a valid amount greater than 0'']"
    by (auto simp: handleSubmit_def Let_def positive_iff)
  from False e show ?thesis by auto
qed

theorem handleSubmit_onSubmit_iff_witness:
  "js_trim (form_description sample_modal) \<noteq> []
   \<and> js_less (Fin 0) (Fin 150)
   \<and> js_less (Fin 100) (Fin 150)
   \<and> OnSubmit ''Buy hay'' (Fin 150)
        \<in> set (fst (handleSubmit (\<lambda>s. if s = ''150'' then Fin 150 else NaN) (\<lambda>n. ''?'')
                      (Fin 100) Submitted sample_modal))
   \<and> (\<exists>m. ModalAlert ''Warning'' m
        \<in> set (fst (handleSubmit (\<lambda>s. if s = ''150'' then Fin 150 else NaN) (\<lambda>n. ''?'')
                      (Fin 100) Submitted sample_modal)))"
proof -
  have d: "js_trim (form_description sample_modal) \<noteq> []"
    by (simp add: js_trim_def is_space_def sample_modal_def)
  have a: "(if form_amount sample_modal = ''150'' then Fin 150 else NaN) = Fin 150"
    by (simp add: sample_modal_def)
  have f: "form_description sample_modal = ''Buy hay''"
    by (simp add: sample_modal_def)
  have p: "js_less (Fin 0) (Fin 150)" "js_less (Fin 100) (Fin 150)"
    by simp_all
  from handleSubmit_onSubmit_iff
    [of "\<lambda>s. if s = ''150'' then Fin 150 else NaN" "\<lambda>n. ''?''" "Fin 100" Submitted sample_modal]
    d p
  show ?thesis unfolding a f by blast
qed

end
